theory Spec2Isabelle
  imports Complex_Main "HOL-Library.Monad_Syntax" "HOL-Library.Product_Lexorder"
begin

section \<open>Dates\<close>

text \<open>
  A JavaScript \<open>Date\<close> is modelled as the pair of its calendar day (a day number) and
  its time of day (the milliseconds since midnight), in a time zone whose offset does not
  change; dates are compared as points in time, that is lexicographically. The functions
  of date-fns that the code calls are:
  \<^item> \<open>differenceInDays\<close>, the number of full days between two dates: the difference of
    the calendar days, less one when the last day is not full, with the sign of the
    comparison of the dates;
  \<^item> \<open>addDays\<close> and \<open>subDays\<close>, which move the calendar day and keep the time of day;
  \<^item> \<open>format(_, "yyyy-MM-dd")\<close>, which names the calendar day; the string is
    represented by the day number;
  \<^item> \<open>parse(_, "yyyy-MM-dd", new Date())\<close>, the midnight of the day that the string
    names. A string that names no day is not modelled.
\<close>

type_synonym date = "int \<times> nat"

definition differenceInDays :: "date \<Rightarrow> date \<Rightarrow> int" where
  "differenceInDays dateLeft dateRight =
     (let difference = \<bar>fst dateLeft - fst dateRight\<bar>
      in if dateRight < dateLeft
         then difference - (if snd dateLeft < snd dateRight then 1 else 0)
         else if dateLeft < dateRight
         then - (difference - (if snd dateRight < snd dateLeft then 1 else 0))
         else 0)"

definition addDays :: "date \<Rightarrow> int \<Rightarrow> date" where
  "addDays d amount = (fst d + amount, snd d)"

definition subDays :: "date \<Rightarrow> int \<Rightarrow> date" where
  "subDays d amount = addDays d (- amount)"

definition format_date :: "date \<Rightarrow> int" where
  "format_date d = fst d"

definition parse_day :: "int \<Rightarrow> date" where
  "parse_day d = (d, 0)"

section \<open>Summary aggregator: the windows\<close>

text \<open>
  The window of a request: \<open>from\<close> and \<open>to\<close> are the days that the query strings name
  (\<open>None\<close> for a missing or empty string), \<open>now\<close> is \<open>new Date()\<close>.
  \<^verbatim>\<open>const defaultTo = new Date();\<close>
  \<^verbatim>\<open>const defaultFrom = subDays(defaultTo, 30);\<close>
  \<^verbatim>\<open>const startDate = from ? parse(from, "yyyy-MM-dd", new Date()) : defaultFrom;\<close>
  \<^verbatim>\<open>const endDate = to ? parse(to, "yyyy-MM-dd", new Date()) : defaultTo;\<close>
\<close>

definition resolve_window :: "date \<Rightarrow> int option \<Rightarrow> int option \<Rightarrow> date \<times> date" where
  "resolve_window now from to =
     (let defaultTo = now;
          defaultFrom = subDays defaultTo 30;
          startDate = (case from of Some d \<Rightarrow> parse_day d | None \<Rightarrow> defaultFrom);
          endDate = (case to of Some d \<Rightarrow> parse_day d | None \<Rightarrow> defaultTo)
      in (startDate, endDate))"

text \<open>
  \<^verbatim>\<open>const periodLength = differenceInDays(endDate, startDate) + 1;\<close>
  \<^verbatim>\<open>const lastPeriodStart = subDays(startDate, periodLength);\<close>
  \<^verbatim>\<open>const lastPeriodEnd = subDays(endDate, periodLength);\<close>
\<close>

definition periodLength :: "date \<Rightarrow> date \<Rightarrow> int" where
  "periodLength startDate endDate = differenceInDays endDate startDate + 1"

definition lastPeriodStart :: "date \<Rightarrow> date \<Rightarrow> date" where
  "lastPeriodStart startDate endDate = subDays startDate (periodLength startDate endDate)"

definition lastPeriodEnd :: "date \<Rightarrow> date \<Rightarrow> date" where
  "lastPeriodEnd startDate endDate = subDays endDate (periodLength startDate endDate)"

section \<open>Utility functions of the summary\<close>

text \<open>
  \<open>calculatePercentageChange\<close> of \<open>lib/utils.ts\<close>. A JavaScript \<open>number\<close> is modelled
  as an exact rational; the rounding of IEEE doubles is not modelled.
\<close>

definition calculatePercentageChange :: "rat \<Rightarrow> rat \<Rightarrow> rat" where
  "calculatePercentageChange current previous =
     (if previous = 0 then (if current = 0 then 0 else 100)
      else ((current - previous) / previous) * 100)"

text \<open>
  \<open>fillMissingDays\<close> of \<open>lib/utils.ts\<close>. An aggregate carries a \<open>Date\<close> and the income
  and expenses summed for it; an entry of the series carries the string of a day. The
  \<open>for\<close> loop over \<open>i\<close> is \<open>fill_loop\<close>, with the array \<open>allDays\<close> it pushes to as
  accumulator; \<open>activeDays.find\<close> is \<open>find\<close>.
\<close>

record day_aggregate =
  a_date :: date
  a_income :: int
  a_expenses :: int

record day_entry =
  d_date :: int
  d_income :: int
  d_expenses :: int

function fill_loop ::
  "day_aggregate list \<Rightarrow> date \<Rightarrow> int \<Rightarrow> int \<Rightarrow> day_entry list \<Rightarrow> day_entry list" where
  "fill_loop activeDays startDate numDays i allDays =
     (if i < numDays then
        (let date = addDays startDate i;
             dateString = format_date date;
             found = find (\<lambda>day. format_date (a_date day) = dateString) activeDays
         in fill_loop activeDays startDate numDays (i + 1)
              (allDays @
                 [case found of
                    Some f \<Rightarrow>
                      \<lparr>d_date = dateString, d_income = a_income f, d_expenses = a_expenses f\<rparr>
                  | None \<Rightarrow> \<lparr>d_date = dateString, d_income = 0, d_expenses = 0\<rparr>]))
      else allDays)"
  by pat_completeness auto
termination
  by (relation "measure (\<lambda>(activeDays, startDate, numDays, i, allDays). nat (numDays - i))")
    auto

declare fill_loop.simps [simp del]

definition fillMissingDays :: "day_aggregate list \<Rightarrow> date \<Rightarrow> date \<Rightarrow> day_entry list" where
  "fillMissingDays activeDays startDate endDate =
     (if length activeDays = 0 then []
      else (let numDays = differenceInDays endDate startDate + 1
            in fill_loop activeDays startDate numDays 0 []))"

section \<open>The relational schema\<close>

text \<open>
  The three tables of \<open>src/db/schema.ts\<close>. A row is a record, a table the list of its
  rows, the database the three tables. \<open>transactions.amount\<close> is an \<open>integer\<close> column
  (thousandths of the currency unit, a 32-bit integer), \<open>transactions.date\<close> a
  \<open>timestamp\<close>. SQL \<open>NULL\<close> in a nullable column is \<open>None\<close>.
\<close>

record account =
  acc_id :: string
  acc_name :: string
  acc_email :: "string option"
  acc_userId :: string

record category =
  cat_id :: string
  cat_name :: string
  cat_email :: "string option"
  cat_userId :: string

record transaction =
  tx_id :: string
  tx_amount :: int
  tx_date :: date
  tx_payee :: string
  tx_notes :: "string option"
  tx_accountId :: string
  tx_categoryId :: "string option"

record database =
  accounts :: "account list"
  categories :: "category list"
  transactions :: "transaction list"

text \<open>
  \<open>.from(transactions).innerJoin(accounts, eq(transactions.accountId, accounts.id))\<close>:
  one joined row for every pair of a transaction and an account with that id.
\<close>

definition innerJoin_accounts :: "database \<Rightarrow> (transaction \<times> account) list" where
  "innerJoin_accounts db =
     concat (map (\<lambda>t. map (\<lambda>a. (t, a))
                         (filter (\<lambda>a. tx_accountId t = acc_id a) (accounts db)))
                 (transactions db))"

text \<open>
  \<open>.leftJoin(categories, eq(transactions.categoryId, categories.id))\<close>: every joined row
  is extended by each category with the transaction's category id, and by \<open>NULL\<close> when
  there is none.
\<close>

definition category_rows ::
  "database \<Rightarrow> transaction \<Rightarrow> account \<Rightarrow> (transaction \<times> account \<times> category option) list"
  where
  "category_rows db t a =
     (let cs = filter (\<lambda>c. tx_categoryId t = Some (cat_id c)) (categories db)
      in if cs = [] then [(t, a, None)] else map (\<lambda>c. (t, a, Some c)) cs)"

definition leftJoin_categories ::
  "database \<Rightarrow> (transaction \<times> account) list \<Rightarrow> (transaction \<times> account \<times> category option) list"
  where
  "leftJoin_categories db rows = concat (map (\<lambda>(t, a). category_rows db t a) rows)"

text \<open>
  JavaScript truthiness of an optional string: \<open>undefined\<close>, \<open>null\<close> and the empty
  string are falsy. It decides \<open>!auth?.userId\<close>, \<open>!id\<close> and \<open>accountId ? ... : undefined\<close>.
\<close>

definition truthy :: "string option \<Rightarrow> bool" where
  "truthy s = (case s of None \<Rightarrow> False | Some v \<Rightarrow> v \<noteq> [])"

text \<open>
  The \<open>where\<close> condition shared by the queries of the summary and by the listing of
  transactions:
  \<^verbatim>\<open>and(accountId ? eq(transactions.accountId, accountId) : undefined,\<close>
  \<^verbatim>\<open>    eq(accounts.userId, userId), gte(transactions.date, startDate),\<close>
  \<^verbatim>\<open>    lte(transactions.date, endDate))\<close>
\<close>

definition window_condition ::
  "string option \<Rightarrow> string \<Rightarrow> date \<Rightarrow> date \<Rightarrow> transaction \<Rightarrow> account \<Rightarrow> bool" where
  "window_condition accountId userId startDate endDate t a =
     ((if truthy accountId then Some (tx_accountId t) = accountId else True)
      \<and> acc_userId a = userId
      \<and> startDate \<le> tx_date t
      \<and> tx_date t \<le> endDate)"

section \<open>Summary aggregator: the queries\<close>

text \<open>
  SQL \<open>SUM\<close> over the rows of a result or of a group: \<open>NULL\<close> when there is no row.
\<close>

definition sql_sum :: "int list \<Rightarrow> int option" where
  "sql_sum xs = (if xs = [] then None else Some (sum_list xs))"

text \<open>
  SQL \<open>ABS\<close> on an \<open>integer\<close> column: the absolute value is an \<open>integer\<close> again,
  and the least value -2147483648 of the type, which has none, raises
  \<open>integer out of range\<close>. A query in which an expression raises has no result
  (\<open>None\<close>); \<open>those\<close> gives the values of a list of expressions if none of them raises.
\<close>

definition int4_abs :: "int \<Rightarrow> int option" where
  "int4_abs x = (if - 2147483648 < x then Some \<bar>x\<bar> else None)"

text \<open>
  \<open>fetchFinancialData\<close>, a closure of the summary handler over \<open>accountId\<close>. Its three
  columns are
  \<^verbatim>\<open>income:    SUM(CASE WHEN amount >= 0 THEN amount ELSE 0 END)\<close>
  \<^verbatim>\<open>expenses:  SUM(CASE WHEN amount < 0 THEN amount ELSE 0 END)\<close>
  \<^verbatim>\<open>remaining: sum(amount)\<close>
  and the result has the single row of an aggregation without \<open>GROUP BY\<close>.
\<close>

record period_totals =
  income :: "int option"
  expenses :: "int option"
  remaining :: "int option"

definition fetchFinancialData ::
  "database \<Rightarrow> string option \<Rightarrow> string \<Rightarrow> date \<Rightarrow> date \<Rightarrow> period_totals" where
  "fetchFinancialData db accountId userId startDate endDate =
     (let rows = filter (\<lambda>(t, a). window_condition accountId userId startDate endDate t a)
                   (innerJoin_accounts db)
      in \<lparr>income = sql_sum (map (\<lambda>(t, a). if tx_amount t \<ge> 0 then tx_amount t else 0) rows),
          expenses = sql_sum (map (\<lambda>(t, a). if tx_amount t < 0 then tx_amount t else 0) rows),
          remaining = sql_sum (map (\<lambda>(t, a). tx_amount t) rows)\<rparr>)"

text \<open>
  The daily breakdown: the rows of the window grouped by \<open>transactions.date\<close> and ordered
  by it, with
  \<^verbatim>\<open>income:   SUM(CASE WHEN amount >= 0 THEN amount ELSE 0 END)\<close>
  \<^verbatim>\<open>expenses: SUM(CASE WHEN amount < 0 THEN ABS(amount) ELSE 0 END)\<close>
  A group has at least one row, so its sums are not \<open>NULL\<close>.
\<close>

definition days_query ::
  "database \<Rightarrow> string option \<Rightarrow> string \<Rightarrow> date \<Rightarrow> date \<Rightarrow> day_aggregate list option" where
  "days_query db accountId userId startDate endDate =
     (let rows = filter (\<lambda>(t, a). window_condition accountId userId startDate endDate t a)
                   (innerJoin_accounts db);
          groups = sort (remdups (map (\<lambda>(t, a). tx_date t) rows))
      in those
           (map (\<lambda>d. let grp = filter (\<lambda>(t, a). tx_date t = d) rows
                     in map_option
                          (\<lambda>abs_amounts.
                             \<lparr>a_date = d,
                              a_income = sum_list (map (\<lambda>(t, a). if tx_amount t \<ge> 0
                                                            then tx_amount t else 0) grp),
                              a_expenses = sum_list abs_amounts\<rparr>)
                          (those (map (\<lambda>(t, a). if tx_amount t < 0
                                                then int4_abs (tx_amount t) else Some 0) grp)))
              groups))"

text \<open>
  The category breakdown: the expense rows of the window (\<open>lt(transactions.amount, 0)\<close>),
  left-joined to the categories, grouped by \<open>categories.name\<close> (\<open>NULL\<close> for a row without
  category), with
  \<^verbatim>\<open>name:  COALESCE(categories.name, 'Uncategorized')\<close>
  \<^verbatim>\<open>value: SUM(ABS(amount))\<close>
  ordered by the value, descending, and limited to 4 rows. SQL leaves the order of
  groups of equal value open; \<open>orderBy_desc\<close> fixes one such order.
\<close>

record category_total =
  name :: string
  "value" :: int

definition expense_rows ::
  "database \<Rightarrow> string option \<Rightarrow> string \<Rightarrow> date \<Rightarrow> date
     \<Rightarrow> (transaction \<times> account \<times> category option) list" where
  "expense_rows db accountId userId startDate endDate =
     filter (\<lambda>(t, a, c). window_condition accountId userId startDate endDate t a
                          \<and> tx_amount t < 0)
       (leftJoin_categories db (innerJoin_accounts db))"

definition group_key :: "transaction \<times> account \<times> category option \<Rightarrow> string option" where
  "group_key = (\<lambda>(t, a, c). map_option cat_name c)"

definition coalesce :: "string option \<Rightarrow> string \<Rightarrow> string" where
  "coalesce v d = (case v of None \<Rightarrow> d | Some x \<Rightarrow> x)"

definition group_total ::
  "(transaction \<times> account \<times> category option) list \<Rightarrow> string option
     \<Rightarrow> category_total option" where
  "group_total rows k =
     map_option (\<lambda>abs_amounts. \<lparr>name = coalesce k ''Uncategorized'', value = sum_list abs_amounts\<rparr>)
       (those (map (\<lambda>(t, a, c). int4_abs (tx_amount t)) (filter (\<lambda>r. group_key r = k) rows)))"

definition orderBy_desc :: "('a \<Rightarrow> 'k :: linorder) \<Rightarrow> 'a list \<Rightarrow> 'a list" where
  "orderBy_desc f xs = rev (sort_key f xs)"

definition topCategories ::
  "database \<Rightarrow> string option \<Rightarrow> string \<Rightarrow> date \<Rightarrow> date \<Rightarrow> category_total list option" where
  "topCategories db accountId userId startDate endDate =
     (let rows = expense_rows db accountId userId startDate endDate
      in map_option (\<lambda>groups. take 4 (orderBy_desc value groups))
           (those (map (group_total rows) (remdups (map group_key rows)))))"

text \<open>Two small databases, used to run the queries on concrete rows.\<close>

definition ledger_db :: database where
  "ledger_db =
     \<lparr>accounts = [\<lparr>acc_id = ''acc1'', acc_name = ''Checking'', acc_email = None,
                    acc_userId = ''user_a''\<rparr>],
      categories = [],
      transactions =
        [\<lparr>tx_id = ''t1'', tx_amount = 7000, tx_date = (10, 0), tx_payee = ''Employer'',
          tx_notes = None, tx_accountId = ''acc1'', tx_categoryId = None\<rparr>,
         \<lparr>tx_id = ''t2'', tx_amount = - 5000, tx_date = (12, 0), tx_payee = ''Grocery Store'',
          tx_notes = None, tx_accountId = ''acc1'', tx_categoryId = None\<rparr>]\<rparr>"

definition household_db :: database where
  "household_db =
     \<lparr>accounts = [\<lparr>acc_id = ''acc1'', acc_name = ''Checking'', acc_email = None,
                    acc_userId = ''user_a''\<rparr>],
      categories = [\<lparr>cat_id = ''c1'', cat_name = ''Food'', cat_email = None,
                      cat_userId = ''user_a''\<rparr>,
                    \<lparr>cat_id = ''c2'', cat_name = ''Rent'', cat_email = None,
                      cat_userId = ''user_a''\<rparr>],
      transactions =
        [\<lparr>tx_id = ''t1'', tx_amount = 7000, tx_date = (10, 0), tx_payee = ''Employer'',
          tx_notes = None, tx_accountId = ''acc1'', tx_categoryId = None\<rparr>,
         \<lparr>tx_id = ''t2'', tx_amount = - 3000, tx_date = (11, 0), tx_payee = ''Grocery Store'',
          tx_notes = None, tx_accountId = ''acc1'', tx_categoryId = Some ''c1''\<rparr>,
         \<lparr>tx_id = ''t3'', tx_amount = - 9000, tx_date = (12, 0), tx_payee = ''Landlord'',
          tx_notes = None, tx_accountId = ''acc1'', tx_categoryId = Some ''c2''\<rparr>,
         \<lparr>tx_id = ''t4'', tx_amount = - 1000, tx_date = (12, 0), tx_payee = ''Coffee Shop'',
          tx_notes = None, tx_accountId = ''acc1'', tx_categoryId = Some ''c1''\<rparr>,
         \<lparr>tx_id = ''t5'', tx_amount = - 5000, tx_date = (13, 0), tx_payee = ''Cash'',
          tx_notes = None, tx_accountId = ''acc1'', tx_categoryId = None\<rparr>]\<rparr>"

section \<open>CSV import\<close>

subsection \<open>The column mapping of the import table\<close>

text \<open>
  The state \<open>selectedColumns\<close> of \<open>ImportTable\<close> is an object from the keys
  \<open>column_0\<close>, \<open>column_1\<close>, ... to a field name or \<open>null\<close>. It is modelled as the list
  of its entries in insertion order, a key \<open>column_i\<close> as the index \<open>i\<close> (so that
  \<open>parseInt(key.split("_")[1])\<close> is the key itself) and \<open>null\<close> as \<open>None\<close>.
\<close>

type_synonym selected_columns = "(nat \<times> string option) list"

definition requiredOptions :: "(string \<times> string) list" where
  "requiredOptions = [(''amount'', ''Amount''), (''date'', ''Date''), (''payee'', ''Payee'')]"

definition optionalOptions :: "(string \<times> string) list" where
  "optionalOptions = [(''notes'', ''Notes''), (''category'', ''Category'')]"

text \<open>Assignment \<open>obj[key] = v\<close>: an existing key keeps its place, a new one is appended.\<close>

fun object_set :: "(nat \<times> 'v) list \<Rightarrow> nat \<Rightarrow> 'v \<Rightarrow> (nat \<times> 'v) list" where
  "object_set [] k v = [(k, v)]"
| "object_set ((k', v') # kvs) k v =
     (if k' = k then (k, v) # kvs else (k', v') # object_set kvs k v)"

definition onTableHeadSelectChange ::
  "nat \<Rightarrow> string option \<Rightarrow> selected_columns \<Rightarrow> selected_columns" where
  "onTableHeadSelectChange columnIndex val prev =
     (let newSelectedColumns = map (\<lambda>(key, v). if v = val then (key, None) else (key, v)) prev;
          val' = (if val = Some ''skip'' then None else val)
      in object_set newSelectedColumns columnIndex val')"

definition getProgress :: "bool \<Rightarrow> rat \<Rightarrow> selected_columns \<Rightarrow> rat" where
  "getProgress isImporting progress selectedColumns =
     (if isImporting then progress
      else (let requiredFilled =
                  list_all (\<lambda>option. Some (fst option) \<in> set (map snd selectedColumns))
                    requiredOptions
            in if requiredFilled then 100 else 0))"

text \<open>The \<open>disabled\<close> attribute of the Continue button.\<close>

definition continue_disabled :: "bool \<Rightarrow> rat \<Rightarrow> selected_columns \<Rightarrow> bool" where
  "continue_disabled isImporting progress selectedColumns =
     (getProgress isImporting progress selectedColumns < 100 \<or> isImporting)"

subsection \<open>From the mapped rows to the payloads\<close>

text \<open>
  \<open>handleContinue\<close> builds one object per body row, with the keys of the required and
  of the optional options. A cell read out of the row's range is \<open>undefined\<close> (\<open>None\<close>);
  a field mapped to no column is the empty string.
\<close>

definition getColumnIndex :: "selected_columns \<Rightarrow> string \<Rightarrow> nat option" where
  "getColumnIndex selectedColumns column =
     map_option fst (find (\<lambda>(key, v). v = Some column) selectedColumns)"

definition cellValue :: "selected_columns \<Rightarrow> string list \<Rightarrow> string \<Rightarrow> string option" where
  "cellValue selectedColumns row column =
     (case getColumnIndex selectedColumns column of
        Some columnIndex \<Rightarrow> (if columnIndex < length row then Some (row ! columnIndex) else None)
      | None \<Rightarrow> Some '''')"

definition handleContinue ::
  "string list list \<Rightarrow> selected_columns \<Rightarrow> (string \<times> string option) list list" where
  "handleContinue data selectedColumns =
     (let body = drop 1 data
      in map (\<lambda>row.
                map (\<lambda>option. (fst option, cellValue selectedColumns row (fst option)))
                  requiredOptions
                @ map (\<lambda>option. (fst option, cellValue selectedColumns row (fst option)))
                    optionalOptions)
           body)"

text \<open>Property access \<open>value.key\<close> on such an object: \<open>undefined\<close> for a missing key.\<close>

definition property :: "(string \<times> string option) list \<Rightarrow> string \<Rightarrow> string option" where
  "property obj key = (case map_of obj key of None \<Rightarrow> None | Some v \<Rightarrow> v)"

subsection \<open>Parsing amounts and dates\<close>

definition is_digit :: "char \<Rightarrow> bool" where
  "is_digit c = (48 \<le> (of_char c :: nat) \<and> (of_char c :: nat) \<le> 57)"

definition is_space :: "char \<Rightarrow> bool" where
  "is_space c = ((of_char c :: nat) = 32 \<or> (9 \<le> (of_char c :: nat) \<and> (of_char c :: nat) \<le> 13))"

definition digits_value :: "string \<Rightarrow> nat" where
  "digits_value ds = foldl (\<lambda>n c. 10 * n + (of_char c - 48)) 0 ds"

text \<open>
  JavaScript's \<open>parseFloat\<close> on the decimal literals: leading white space, an optional
  sign, digits with an optional fraction, an optional exponent; what follows is ignored.
  \<open>NaN\<close> is \<open>None\<close>. The literal \<open>Infinity\<close> is not modelled, and a number is an exact
  rational.
\<close>

definition parse_sign :: "string \<Rightarrow> int \<times> string" where
  "parse_sign s =
     (case s of [] \<Rightarrow> (1, [])
      | c # r \<Rightarrow> if c = CHR ''-'' then (- 1, r) else if c = CHR ''+'' then (1, r) else (1, s))"

definition parse_exponent :: "string \<Rightarrow> int" where
  "parse_exponent s =
     (case s of [] \<Rightarrow> 0
      | c # r \<Rightarrow>
          if c = CHR ''e'' \<or> c = CHR ''E''
          then (let (sgn, r') = parse_sign r; ds = takeWhile is_digit r'
                in if ds = [] then 0 else sgn * int (digits_value ds))
          else 0)"

definition parseFloat :: "string option \<Rightarrow> rat option" where
  "parseFloat v =
     (case v of None \<Rightarrow> None
      | Some s \<Rightarrow>
          (let (sgn, u) = parse_sign (dropWhile is_space s);
               ip = takeWhile is_digit u;
               r1 = dropWhile is_digit u;
               fp = (case r1 of [] \<Rightarrow> []
                     | c # r \<Rightarrow> if c = CHR ''.'' then takeWhile is_digit r else []);
               r2 = (case r1 of [] \<Rightarrow> []
                     | c # r \<Rightarrow> if c = CHR ''.'' then dropWhile is_digit r else r1);
               ex = parse_exponent r2;
               mantissa = of_nat (digits_value ip) + of_nat (digits_value fp) / 10 ^ length fp
           in if ip = [] \<and> fp = [] then None
              else Some (of_int sgn * mantissa
                         * (if 0 \<le> ex then 10 ^ nat ex else 1 / 10 ^ nat (- ex)))))"

text \<open>\<open>Math.round\<close>: the nearest integer, a half rounded up; \<open>NaN\<close> stays \<open>NaN\<close>.\<close>

definition Math_round :: "rat option \<Rightarrow> int option" where
  "Math_round x = map_option (\<lambda>r. \<lfloor>r + 1 / 2\<rfloor>) x"

text \<open>
  \<open>parse(_, dateFormat, new Date())\<close> of date-fns with
  \<^verbatim>\<open>const dateFormat = "yyyy-MM-dd HH:mm:ss";\<close>
  Each numeric token takes one up to as many digits as it has letters, each other
  character of the pattern must be met as it is, only white space may follow, and the
  fields must name a date and a time that exist. An \<open>Invalid Date\<close> is \<open>None\<close>, as is the
  result for \<open>undefined\<close>.
\<close>

record civil_time =
  year :: nat
  month :: nat
  day :: nat
  hour :: nat
  minute :: nat
  second :: nat

definition parseNDigits :: "nat \<Rightarrow> string \<Rightarrow> (nat \<times> string) option" where
  "parseNDigits n s =
     (let ds = takeWhile is_digit (take n s)
      in if ds = [] then None else Some (digits_value ds, drop (length ds) s))"

definition parseLiteral :: "char \<Rightarrow> string \<Rightarrow> string option" where
  "parseLiteral c s = (case s of [] \<Rightarrow> None | x # r \<Rightarrow> if x = c then Some r else None)"

definition isLeapYear :: "nat \<Rightarrow> bool" where
  "isLeapYear y = (y mod 400 = 0 \<or> (y mod 4 = 0 \<and> y mod 100 \<noteq> 0))"

definition daysInMonth :: "nat \<Rightarrow> nat \<Rightarrow> nat" where
  "daysInMonth y m =
     (if m = 2 then (if isLeapYear y then 29 else 28)
      else if m = 4 \<or> m = 6 \<or> m = 9 \<or> m = 11 then 30 else 31)"

definition valid_civil_time :: "civil_time \<Rightarrow> bool" where
  "valid_civil_time t =
     (0 < year t \<and> 1 \<le> month t \<and> month t \<le> 12
      \<and> 1 \<le> day t \<and> day t \<le> daysInMonth (year t) (month t)
      \<and> hour t \<le> 23 \<and> minute t \<le> 59 \<and> second t \<le> 59)"

definition parse_dateFormat :: "string option \<Rightarrow> civil_time option" where
  "parse_dateFormat v =
     do {
       s \<leftarrow> v;
       (y, s1) \<leftarrow> parseNDigits 4 s;
       s2 \<leftarrow> parseLiteral (CHR ''-'') s1;
       (m, s3) \<leftarrow> parseNDigits 2 s2;
       s4 \<leftarrow> parseLiteral (CHR ''-'') s3;
       (d, s5) \<leftarrow> parseNDigits 2 s4;
       s6 \<leftarrow> parseLiteral (CHR '' '') s5;
       (h, s7) \<leftarrow> parseNDigits 2 s6;
       s8 \<leftarrow> parseLiteral (CHR '':'') s7;
       (mi, s9) \<leftarrow> parseNDigits 2 s8;
       s10 \<leftarrow> parseLiteral (CHR '':'') s9;
       (sec, s11) \<leftarrow> parseNDigits 2 s10;
       (let t = \<lparr>year = y, month = m, day = d, hour = h, minute = mi, second = sec\<rparr>
        in if list_all is_space s11 \<and> valid_civil_time t then Some t else None)
     }"

subsection \<open>Submitting the import\<close>

text \<open>
  \<open>onSubmitImport\<close> of \<open>ImportCard\<close> turns every mapped row into the payload it then hands
  to \<open>createTransaction\<close>:
  \<^verbatim>\<open>{ ...value, accountId,\<close>
  \<^verbatim>\<open>  amount: Math.round(parseFloat(value.amount) * 1000),\<close>
  \<^verbatim>\<open>  date: parse(value.date, dateFormat, new Date()) }\<close>
  with \<open>accountId = ""\<close>. The model is the list of these payloads.
\<close>

record import_payload =
  p_amount :: "int option"
  p_date :: "civil_time option"
  p_payee :: "string option"
  p_notes :: "string option"
  p_category :: "string option"
  p_accountId :: string

definition onSubmitImport :: "(string \<times> string option) list list \<Rightarrow> import_payload list" where
  "onSubmitImport vals =
     (let accountId = ''''
      in map (\<lambda>val.
                \<lparr>p_amount = Math_round (map_option (\<lambda>x. x * 1000)
                                          (parseFloat (property val ''amount''))),
                 p_date = parse_dateFormat (property val ''date''),
                 p_payee = property val ''payee'',
                 p_notes = property val ''notes'',
                 p_category = property val ''category'',
                 p_accountId = accountId\<rparr>)
           vals)"

text \<open>
  The import of the test \<open>processes CSV data correctly\<close>: the header
  \<open>Date, Amount, Payee\<close>, the row \<open>2024-01-01, 25.50, Coffee Shop\<close>, and each column
  selected for the field of its name.
\<close>

definition coffee_csv :: "string list list" where
  "coffee_csv = [[''Date'', ''Amount'', ''Payee''], [''2024-01-01'', ''25.50'', ''Coffee Shop'']]"

definition coffee_columns :: selected_columns where
  "coffee_columns =
     onTableHeadSelectChange 2 (Some ''payee'')
       (onTableHeadSelectChange 1 (Some ''amount'')
          (onTableHeadSelectChange 0 (Some ''date'') []))"

section \<open>The route handlers\<close>

text \<open>
  A handler answers with \<open>c.json({ error }, status)\<close> or with \<open>c.json({ data })\<close>; when a
  statement of the handler throws (a query that the database rejects, a query builder
  that refuses its arguments) the framework answers \<open>500 Internal Server Error\<close>. The
  arguments of a handler are what it reads from the request: \<open>auth?.userId\<close> (\<open>None\<close>
  without a session), the validated parameters, and the database. Beside the response a
  handler returns the queries it has sent to the database, in order; a handler that
  writes also returns the database it leaves.
\<close>

datatype 'a response = Json_error string nat | Json_data 'a | Internal_Server_Error

datatype table = Accounts | Categories | Transactions

datatype query = Select table | Insert table | Update table | Delete table

text \<open>The rows selected as \<open>{ id, name }\<close>.\<close>

record id_name =
  row_id :: string
  row_name :: string

text \<open>
  The handlers that the properties below follow to their end are modelled in full. Of the
  others only the guards are modelled: \<open>rest\<close> stands for the statements after the
  guards, and receives the user id and the id parameter that passed them.
\<close>

subsection \<open>Categories (\<open>app/api/[[...route]]/categories.ts\<close>)\<close>

definition categories_list :: "string option \<Rightarrow> database \<Rightarrow> id_name list response \<times> query list" where
  "categories_list userId db =
     (if \<not> truthy userId then (Json_error ''Unauthorized.'' 401, [])
      else (Json_data (map (\<lambda>c. \<lparr>row_id = cat_id c, row_name = cat_name c\<rparr>)
                         (filter (\<lambda>c. cat_userId c = the userId) (categories db))),
            [Select Categories]))"

definition categories_get ::
  "string option \<Rightarrow> string option \<Rightarrow> database \<Rightarrow> id_name response \<times> query list" where
  "categories_get userId param_id db =
     (if \<not> truthy param_id then (Json_error ''Missing id.'' 400, [])
      else if \<not> truthy userId then (Json_error ''Unauthorized.'' 401, [])
      else (case filter (\<lambda>c. cat_userId c = the userId \<and> cat_id c = the param_id) (categories db) of
              [] \<Rightarrow> (Json_error ''Not found.'' 404, [Select Categories])
            | c # _ \<Rightarrow> (Json_data \<lparr>row_id = cat_id c, row_name = cat_name c\<rparr>,
                        [Select Categories])))"





subsection \<open>Accounts (\<open>app/api/[[...route]]/accounts.ts\<close>)\<close>



definition accounts_get ::
  "string option \<Rightarrow> string option \<Rightarrow> database \<Rightarrow> id_name response \<times> query list" where
  "accounts_get userId param_id db =
     (if \<not> truthy userId then (Json_error ''Unauthorized'' 401, [])
      else if \<not> truthy param_id then (Json_error ''Missing id'' 400, [])
      else (case filter (\<lambda>a. acc_userId a = the userId \<and> acc_id a = the param_id) (accounts db) of
              [] \<Rightarrow> (Json_error ''Not found'' 404, [Select Accounts])
            | a # _ \<Rightarrow> (Json_data \<lparr>row_id = acc_id a, row_name = acc_name a\<rparr>,
                        [Select Accounts])))"




subsection \<open>Transactions (\<open>app/api/[[...route]]/transactions.ts\<close>)\<close>

record transaction_row =
  r_id :: string
  r_date :: date
  r_category :: "string option"
  r_categoryId :: "string option"
  r_payee :: string
  r_amount :: int
  r_notes :: "string option"
  r_account :: string
  r_accountId :: string

definition transactions_list ::
  "string option \<Rightarrow> int option \<Rightarrow> int option \<Rightarrow> string option \<Rightarrow> date \<Rightarrow> database
     \<Rightarrow> transaction_row list response \<times> query list" where
  "transactions_list userId from to accountId now db =
     (if \<not> truthy userId then (Json_error ''Unauthorized'' 401, [])
      else (let (startDate, endDate) = resolve_window now from to;
                rows = filter (\<lambda>(t, a, c).
                                 window_condition accountId (the userId) startDate endDate t a)
                         (leftJoin_categories db (innerJoin_accounts db))
            in (Json_data
                  (orderBy_desc r_date
                     (map (\<lambda>(t, a, c).
                             \<lparr>r_id = tx_id t, r_date = tx_date t,
                              r_category = map_option cat_name c,
                              r_categoryId = tx_categoryId t, r_payee = tx_payee t,
                              r_amount = tx_amount t, r_notes = tx_notes t,
                              r_account = acc_name a, r_accountId = tx_accountId t\<rparr>)
                        rows)),
                [Select Transactions])))"

text \<open>The row selected by the get-by-id has the columns of the transaction itself.\<close>

definition transactions_get ::
  "string option \<Rightarrow> string option \<Rightarrow> database \<Rightarrow> transaction response \<times> query list" where
  "transactions_get userId param_id db =
     (if \<not> truthy userId then (Json_error ''Unauthorized'' 401, [])
      else if \<not> truthy param_id then (Json_error ''Missing id'' 400, [])
      else (case filter (\<lambda>(t, a). acc_userId a = the userId \<and> tx_id t = the param_id)
                   (innerJoin_accounts db) of
              [] \<Rightarrow> (Json_error ''Not found'' 404, [Select Transactions])
            | (t, a) # _ \<Rightarrow> (Json_data t, [Select Transactions])))"





text \<open>
  \<open>POST /transactions/bulk-create\<close>. The body is a list of transactions without id, as the
  validator lets them through; an amount is an integer here. \<open>createId k\<close> is the id that
  the \<open>k\<close>-th call of \<open>createId()\<close> of the request returns.
\<close>

record new_transaction =
  n_amount :: int
  n_date :: date
  n_payee :: string
  n_notes :: "string option"
  n_accountId :: string
  n_categoryId :: "string option"

definition with_id :: "string \<Rightarrow> new_transaction \<Rightarrow> transaction" where
  "with_id i v =
     \<lparr>tx_id = i, tx_amount = n_amount v, tx_date = n_date v, tx_payee = n_payee v,
      tx_notes = n_notes v, tx_accountId = n_accountId v, tx_categoryId = n_categoryId v\<rparr>"

text \<open>\<open>[...new Set(xs)]\<close>: the elements of \<open>xs\<close>, each once, in the order of first occurrence.\<close>

definition new_Set :: "'a list \<Rightarrow> 'a list" where
  "new_Set xs = rev (remdups (rev xs))"

text \<open>
  What the table \<open>transactions\<close> of \<open>db/schema.ts\<close> accepts. The column \<open>ammount\<close> is an
  \<open>integer\<close> of 32 bits, \<open>id\<close> is the primary key, \<open>account_id\<close> references the accounts and
  \<open>category_id\<close>, when not \<open>NULL\<close>, the categories. An \<open>INSERT\<close> of several rows is one
  statement: the database takes all the rows or, when one of them breaks a constraint,
  raises an error and takes none.
\<close>

definition int4 :: "int \<Rightarrow> bool" where
  "int4 x \<longleftrightarrow> - 2147483648 \<le> x \<and> x \<le> 2147483647"

definition accepted :: "database \<Rightarrow> transaction list \<Rightarrow> bool" where
  "accepted db data \<longleftrightarrow>
     distinct (map tx_id (transactions db @ data))
     \<and> list_all (\<lambda>t. int4 (tx_amount t)
                      \<and> tx_accountId t \<in> set (map acc_id (accounts db))
                      \<and> (case tx_categoryId t of
                            None \<Rightarrow> True
                          | Some c \<Rightarrow> c \<in> set (map cat_id (categories db)))) data"

definition insert_transactions :: "database \<Rightarrow> transaction list \<Rightarrow> database option" where
  "insert_transactions db data =
     (if accepted db data then Some (db\<lparr>transactions := transactions db @ data\<rparr>) else None)"

text \<open>
  The handler. With an empty body the query builder refuses \<open>values([])\<close> and throws
  before a statement is sent.
\<close>

definition transactions_bulk_create ::
  "string option \<Rightarrow> new_transaction list \<Rightarrow> (nat \<Rightarrow> string) \<Rightarrow> database
     \<Rightarrow> transaction list response \<times> query list \<times> database" where
  "transactions_bulk_create userId vals createId db =
     (if \<not> truthy userId then (Json_error ''Unauthorized'' 401, [], db)
      else (let accountIds = new_Set (map n_accountId vals);
                userAccounts = map acc_id
                  (filter (\<lambda>a. acc_userId a = the userId \<and> acc_id a \<in> set accountIds)
                     (accounts db))
            in if length userAccounts \<noteq> length accountIds
               then (Json_error ''Invalid account(s)'' 400, [Select Accounts], db)
               else (let data = map (\<lambda>k. with_id (createId k) (vals ! k)) [0..<length vals]
                     in if data = [] then (Internal_Server_Error, [Select Accounts], db)
                        else (case insert_transactions db data of
                                None \<Rightarrow> (Internal_Server_Error,
                                          [Select Accounts, Insert Transactions], db)
                              | Some db' \<Rightarrow> (Json_data data,
                                            [Select Accounts, Insert Transactions], db')))))"

subsection \<open>Summary (\<open>app/api/[[...route]]/summary.ts\<close>)\<close>

text \<open>
  The total of a window without rows is \<open>NULL\<close>. What \<open>calculatePercentageChange\<close> makes
  of such an argument is not modelled: the change is \<open>None\<close> then.
\<close>

definition percentage_change :: "int option \<Rightarrow> int option \<Rightarrow> rat option" where
  "percentage_change current previous =
     (case (current, previous) of
        (Some c, Some p) \<Rightarrow> Some (calculatePercentageChange (of_int c) (of_int p))
      | _ \<Rightarrow> None)"

record summary =
  remainingAmount :: "int option"
  remainingChange :: "rat option"
  incomeAmount :: "int option"
  incomeChange :: "rat option"
  expensesAmount :: "int option"
  expensesChange :: "rat option"
  summary_categories :: "category_total list"
  summary_days :: "day_entry list"

text \<open>
  The handler sends four queries, one after the other: the totals of the window, the totals
  of the previous window, the daily breakdown and the category breakdown. A query that
  the database rejects ends the request.
\<close>

definition summary_get ::
  "string option \<Rightarrow> int option \<Rightarrow> int option \<Rightarrow> string option \<Rightarrow> date \<Rightarrow> database
     \<Rightarrow> summary response \<times> query list" where
  "summary_get userId from to accountId now db =
     (if \<not> truthy userId then (Json_error ''Unauthorized'' 401, [])
      else (let (startDate, endDate) = resolve_window now from to;
                currentPeriod = fetchFinancialData db accountId (the userId) startDate endDate;
                lastPeriod = fetchFinancialData db accountId (the userId)
                               (lastPeriodStart startDate endDate)
                               (lastPeriodEnd startDate endDate)
            in case days_query db accountId (the userId) startDate endDate of
                 None \<Rightarrow> (Internal_Server_Error,
                          [Select Transactions, Select Transactions, Select Transactions])
               | Some days \<Rightarrow>
                   (case topCategories db accountId (the userId) startDate endDate of
                      None \<Rightarrow> (Internal_Server_Error,
                             [Select Transactions, Select Transactions,
                              Select Transactions, Select Transactions])
                    | Some cats \<Rightarrow>
                        (Json_data
                           \<lparr>remainingAmount = remaining currentPeriod,
                            remainingChange = percentage_change (remaining currentPeriod)
                                                (remaining lastPeriod),
                            incomeAmount = income currentPeriod,
                            incomeChange = percentage_change (income currentPeriod)
                                             (income lastPeriod),
                            expensesAmount = expenses currentPeriod,
                            expensesChange = percentage_change (expenses currentPeriod)
                                               (expenses lastPeriod),
                            summary_categories = cats,
                            summary_days = fillMissingDays days startDate endDate\<rparr>,
                         [Select Transactions, Select Transactions,
                          Select Transactions, Select Transactions]))))"

subsection \<open>Example requests\<close>

text \<open>
  A database with an account of \<open>user_a\<close>, and an account and a category of \<open>user_b\<close>.
\<close>

definition shared_db :: database where
  "shared_db =
     \<lparr>accounts = [\<lparr>acc_id = ''acc1'', acc_name = ''Checking'', acc_email = None,
                    acc_userId = ''user_a''\<rparr>,
                  \<lparr>acc_id = ''acc2'', acc_name = ''Savings'', acc_email = None,
                    acc_userId = ''user_b''\<rparr>],
      categories = [\<lparr>cat_id = ''c9'', cat_name = ''Surprise party'', cat_email = None,
                      cat_userId = ''user_b''\<rparr>],
      transactions =
        [\<lparr>tx_id = ''t2'', tx_amount = - 800, tx_date = (13, 0), tx_payee = ''Florist'',
          tx_notes = None, tx_accountId = ''acc2'', tx_categoryId = Some ''c9''\<rparr>]\<rparr>"

definition sample_createId :: "nat \<Rightarrow> string" where
  "sample_createId k = ''tx'' @ replicate k (CHR ''i'')"

text \<open>
  Batches for the bulk creation by \<open>user_a\<close> on \<open>shared_db\<close>: \<open>mixed_batch\<close> names an
  account of \<open>user_b\<close> in its second row, \<open>own_batch\<close> only the account of \<open>user_a\<close>,
  \<open>dangling_batch\<close> the account of \<open>user_a\<close> and, in its second row, a category id that no
  category has, and \<open>crossing_batch\<close> the account of \<open>user_a\<close> and the category of
  \<open>user_b\<close>.
\<close>

definition mixed_batch :: "new_transaction list" where
  "mixed_batch =
     [\<lparr>n_amount = 25500, n_date = (14, 0), n_payee = ''Coffee Shop'', n_notes = None,
       n_accountId = ''acc1'', n_categoryId = None\<rparr>,
      \<lparr>n_amount = - 100000, n_date = (15, 0), n_payee = ''Grocery Store'', n_notes = None,
       n_accountId = ''acc2'', n_categoryId = None\<rparr>]"

definition own_batch :: "new_transaction list" where
  "own_batch =
     [\<lparr>n_amount = 25500, n_date = (14, 0), n_payee = ''Coffee Shop'', n_notes = None,
       n_accountId = ''acc1'', n_categoryId = None\<rparr>,
      \<lparr>n_amount = - 100000, n_date = (15, 0), n_payee = ''Grocery Store'', n_notes = None,
       n_accountId = ''acc1'', n_categoryId = None\<rparr>]"

definition dangling_batch :: "new_transaction list" where
  "dangling_batch =
     [\<lparr>n_amount = 25500, n_date = (14, 0), n_payee = ''Coffee Shop'', n_notes = None,
       n_accountId = ''acc1'', n_categoryId = None\<rparr>,
      \<lparr>n_amount = - 100000, n_date = (15, 0), n_payee = ''Grocery Store'', n_notes = None,
       n_accountId = ''acc1'', n_categoryId = Some ''c0''\<rparr>]"

definition crossing_batch :: "new_transaction list" where
  "crossing_batch =
     [\<lparr>n_amount = - 5000, n_date = (12, 0), n_payee = ''Bakery'', n_notes = None,
       n_accountId = ''acc1'', n_categoryId = Some ''c9''\<rparr>]"

text \<open>
  \<open>shared_db\<close> after \<open>user_a\<close> has created the row of \<open>crossing_batch\<close>: a transaction of
  \<open>user_a\<close> carries the id of the category of \<open>user_b\<close>.
\<close>

definition crossed_db :: database where
  "crossed_db =
     \<lparr>accounts = [\<lparr>acc_id = ''acc1'', acc_name = ''Checking'', acc_email = None,
                    acc_userId = ''user_a''\<rparr>,
                  \<lparr>acc_id = ''acc2'', acc_name = ''Savings'', acc_email = None,
                    acc_userId = ''user_b''\<rparr>],
      categories = [\<lparr>cat_id = ''c9'', cat_name = ''Surprise party'', cat_email = None,
                      cat_userId = ''user_b''\<rparr>],
      transactions =
        [\<lparr>tx_id = ''t2'', tx_amount = - 800, tx_date = (13, 0), tx_payee = ''Florist'',
          tx_notes = None, tx_accountId = ''acc2'', tx_categoryId = Some ''c9''\<rparr>,
         \<lparr>tx_id = ''tx'', tx_amount = - 5000, tx_date = (12, 0), tx_payee = ''Bakery'',
          tx_notes = None, tx_accountId = ''acc1'', tx_categoryId = Some ''c9''\<rparr>]\<rparr>"

section \<open>Properties of the utility functions and the windows\<close>

subsection \<open>Percentage change\<close>

text \<open>
  Claim C2. The percentage change of a current against a previous total is
  \<open>(current - previous) / previous * 100\<close> when the previous total is not zero, \<open>0\<close> when
  both are zero and \<open>100\<close> when the previous total is zero and the current one is not;
  in particular (previous, current) = (0, 0), (0, 500), (200, 300), (200, 100) give
  0, 100, 50 and -50.
\<close>

theorem C2_percentage_change:
  "(previous \<noteq> 0 \<longrightarrow>
      calculatePercentageChange current previous = (current - previous) / previous * 100)
   \<and> calculatePercentageChange 0 0 = 0
   \<and> (current \<noteq> 0 \<longrightarrow> calculatePercentageChange current 0 = 100)
   \<and> calculatePercentageChange 500 0 = 100
   \<and> calculatePercentageChange 300 200 = 50
   \<and> calculatePercentageChange 100 200 = - 50"
  by (simp add: calculatePercentageChange_def)

theorem C2_percentage_change_witness:
  "(200::rat) \<noteq> 0 \<and> (300::rat) \<noteq> 0
   \<and> calculatePercentageChange 300 200 = (300 - 200) / 200 * 100
   \<and> calculatePercentageChange 300 0 = 100"
  using C2_percentage_change [of 200 300] C2_percentage_change [of 0 300] by simp

subsection \<open>The previous period\<close>

lemma differenceInDays_forward:
  assumes "(ds, ts) \<le> (de, te)"
  shows "differenceInDays (de, te) (ds, ts) = de - ds - (if te < ts then 1 else 0)"
  using assms by (auto simp: differenceInDays_def Let_def)

text \<open>
  When the window does not start later in the day than it ends (both bounds given, or
  both defaulted, or only \<open>from\<close> given), the previous window is as long as the current
  one, and its last day is the day before the first day of the current one.
\<close>

lemma previous_window_aligned:
  assumes "(ds, ts) \<le> (de, te)" and "ts \<le> te"
  shows "periodLength (ds, ts) (de, te) = de - ds + 1"
    and "lastPeriodStart (ds, ts) (de, te) = (ds - (de - ds + 1), ts)"
    and "lastPeriodEnd (ds, ts) (de, te) = (ds - 1, te)"
    and "lastPeriodEnd (ds, ts) (de, te) < (ds, ts)"
    and "differenceInDays (lastPeriodEnd (ds, ts) (de, te)) (lastPeriodStart (ds, ts) (de, te))
           = differenceInDays (de, te) (ds, ts)"
proof -
  have d: "differenceInDays (de, te) (ds, ts) = de - ds"
    using differenceInDays_forward [OF assms(1)] assms(2) by simp
  show l: "periodLength (ds, ts) (de, te) = de - ds + 1"
    by (simp add: periodLength_def d)
  show s: "lastPeriodStart (ds, ts) (de, te) = (ds - (de - ds + 1), ts)"
    by (simp add: lastPeriodStart_def l subDays_def addDays_def)
  show e: "lastPeriodEnd (ds, ts) (de, te) = (ds - 1, te)"
    by (simp add: lastPeriodEnd_def l subDays_def addDays_def)
  show "lastPeriodEnd (ds, ts) (de, te) < (ds, ts)"
    by (simp add: e)
  have "(ds - (de - ds + 1), ts) \<le> (ds - 1, te)"
    using assms by auto
  from differenceInDays_forward [OF this] assms(2)
  show "differenceInDays (lastPeriodEnd (ds, ts) (de, te)) (lastPeriodStart (ds, ts) (de, te))
           = differenceInDays (de, te) (ds, ts)"
    by (simp add: s e d)
qed


subsection \<open>Filling the daily series\<close>

lemma fill_loop_dates:
  "0 \<le> i \<Longrightarrow> map d_date (fill_loop activeDays startDate numDays i allDays)
     = map d_date allDays @ [fst startDate + i .. fst startDate + numDays - 1]"
proof (induction activeDays startDate numDays i allDays rule: fill_loop.induct)
  case (1 activeDays startDate numDays i allDays)
  show ?case
  proof (cases "i < numDays")
    case True
    let ?d = "format_date (addDays startDate i)"
    let ?e = "case find (\<lambda>day. format_date (a_date day) = ?d) activeDays of
                Some f \<Rightarrow> \<lparr>d_date = ?d, d_income = a_income f, d_expenses = a_expenses f\<rparr>
              | None \<Rightarrow> \<lparr>d_date = ?d, d_income = 0, d_expenses = 0\<rparr>"
    have step: "fill_loop activeDays startDate numDays i allDays
                  = fill_loop activeDays startDate numDays (i + 1) (allDays @ [?e])"
      using True by (subst fill_loop.simps) (simp add: Let_def)
    have e: "d_date ?e = fst startDate + i"
      by (simp add: addDays_def format_date_def split: option.split)
    have u: "[fst startDate + i .. fst startDate + numDays - 1]
               = (fst startDate + i) # [fst startDate + (i + 1) .. fst startDate + numDays - 1]"
      using True by (simp add: upto_rec1 add.assoc)
    have "0 \<le> i + 1" using "1.prems" by simp
    from "1.IH" [OF True refl refl refl this]
    have "map d_date (fill_loop activeDays startDate numDays (i + 1) (allDays @ [?e]))
            = map d_date (allDays @ [?e])
              @ [fst startDate + (i + 1) .. fst startDate + numDays - 1]" .
    then show ?thesis
      by (simp only: step u e map_append list.map append_assoc append_Cons append_Nil)
  next
    case False
    then show ?thesis by (subst fill_loop.simps) simp
  qed
qed

lemma fill_loop_entry:
  "r \<in> set (fill_loop activeDays startDate numDays i allDays) \<Longrightarrow> r \<notin> set allDays \<Longrightarrow>
   (case find (\<lambda>day. fst (a_date day) = d_date r) activeDays of
      Some f \<Rightarrow> d_income r = a_income f \<and> d_expenses r = a_expenses f
    | None \<Rightarrow> d_income r = 0 \<and> d_expenses r = 0)"
proof (induction activeDays startDate numDays i allDays rule: fill_loop.induct)
  case (1 activeDays startDate numDays i allDays)
  show ?case
  proof (cases "i < numDays")
    case True
    let ?d = "format_date (addDays startDate i)"
    let ?e = "case find (\<lambda>day. format_date (a_date day) = ?d) activeDays of
                Some f \<Rightarrow> \<lparr>d_date = ?d, d_income = a_income f, d_expenses = a_expenses f\<rparr>
              | None \<Rightarrow> \<lparr>d_date = ?d, d_income = 0, d_expenses = 0\<rparr>"
    have mem: "r \<in> set (fill_loop activeDays startDate numDays (i + 1) (allDays @ [?e]))"
      using "1.prems"(1) True by (subst (asm) fill_loop.simps) (simp add: Let_def)
    show ?thesis
    proof (cases "r = ?e")
      case True
      show ?thesis
      proof (cases "find (\<lambda>day. format_date (a_date day) = ?d) activeDays")
        case None
        with True have "r = \<lparr>d_date = ?d, d_income = 0, d_expenses = 0\<rparr>" by simp
        with None show ?thesis by (simp add: format_date_def)
      next
        case (Some f)
        with True have "r = \<lparr>d_date = ?d, d_income = a_income f, d_expenses = a_expenses f\<rparr>"
          by simp
        with Some show ?thesis by (simp add: format_date_def)
      qed
    next
      case False
      with "1.prems" have "r \<notin> set (allDays @ [?e])" by simp
      from "1.IH" [OF True refl refl refl mem this] show ?thesis .
    qed
  next
    case False
    with "1.prems" show ?thesis by (subst (asm) fill_loop.simps) simp
  qed
qed

text \<open>
  The dates of the series for any window: the calendar days from the day of \<open>startDate\<close>
  on, as many as \<open>differenceInDays endDate startDate + 1\<close>.
\<close>

lemma fillMissingDays_dates:
  assumes "activeDays \<noteq> []" and "(ds, ts) \<le> (de, te)"
  shows "map d_date (fillMissingDays activeDays (ds, ts) (de, te))
           = [ds .. de - (if te < ts then 1 else 0)]"
  using assms(1) differenceInDays_forward [OF assms(2)]
    fill_loop_dates [of 0 activeDays "(ds, ts)" "differenceInDays (de, te) (ds, ts) + 1" "[]"]
  by (simp add: fillMissingDays_def)

text \<open>
  Claim C3, as the code has it. \<open>fillMissingDays\<close> returns the empty series when it is
  given no aggregate at all, whatever the window. Given at least one aggregate and a
  window that does not start later in the day than it ends, the series has one entry for
  each calendar day from the day of \<open>startDate\<close> to the day of \<open>endDate\<close>, each day once
  and in ascending order; an entry for a day of which there is no aggregate reports zero
  income and zero expenses, and an entry for any other day reports the first aggregate of
  that day.
\<close>

theorem C3_fillMissingDays:
  "fillMissingDays [] startDate endDate = []
   \<and> (activeDays \<noteq> [] \<and> startDate \<le> endDate \<and> snd startDate \<le> snd endDate \<longrightarrow>
        map d_date (fillMissingDays activeDays startDate endDate)
          = [fst startDate .. fst endDate]
        \<and> int (length (fillMissingDays activeDays startDate endDate))
            = fst endDate - fst startDate + 1
        \<and> distinct (map d_date (fillMissingDays activeDays startDate endDate))
        \<and> sorted (map d_date (fillMissingDays activeDays startDate endDate))
        \<and> (\<forall>r \<in> set (fillMissingDays activeDays startDate endDate).
              (\<forall>day \<in> set activeDays. fst (a_date day) \<noteq> d_date r)
              \<longrightarrow> d_income r = 0 \<and> d_expenses r = 0)
        \<and> (\<forall>r \<in> set (fillMissingDays activeDays startDate endDate).
              \<forall>f. find (\<lambda>day. fst (a_date day) = d_date r) activeDays = Some f
                  \<longrightarrow> d_income r = a_income f \<and> d_expenses r = a_expenses f))"
proof (intro conjI impI)
  show "fillMissingDays [] startDate endDate = []"
    by (simp add: fillMissingDays_def)
next
  assume h: "activeDays \<noteq> [] \<and> startDate \<le> endDate \<and> snd startDate \<le> snd endDate"
  obtain ds ts de te where s: "startDate = (ds, ts)" and e: "endDate = (de, te)"
    by (cases startDate, cases endDate) blast
  from h have le: "(ds, ts) \<le> (de, te)" and tod: "\<not> te < ts" and ne: "activeDays \<noteq> []"
    by (auto simp: s e)
  have m: "map d_date (fillMissingDays activeDays startDate endDate)
             = [fst startDate .. fst endDate]"
    using fillMissingDays_dates [OF ne le] tod by (simp add: s e)
  then show "map d_date (fillMissingDays activeDays startDate endDate)
             = [fst startDate .. fst endDate]" .
  have "length (map d_date (fillMissingDays activeDays startDate endDate))
          = length [fst startDate .. fst endDate]"
    by (simp only: m)
  moreover have "fst startDate \<le> fst endDate"
    using le by (auto simp: s e)
  ultimately show "int (length (fillMissingDays activeDays startDate endDate))
            = fst endDate - fst startDate + 1"
    by simp
  show "distinct (map d_date (fillMissingDays activeDays startDate endDate))"
    by (simp only: m distinct_upto)
  show "sorted (map d_date (fillMissingDays activeDays startDate endDate))"
    by (simp only: m sorted_upto)
  have entry: "case find (\<lambda>day. fst (a_date day) = d_date r) activeDays of
      Some f \<Rightarrow> d_income r = a_income f \<and> d_expenses r = a_expenses f
    | None \<Rightarrow> d_income r = 0 \<and> d_expenses r = 0"
    if "r \<in> set (fillMissingDays activeDays startDate endDate)" for r
    using that ne fill_loop_entry [of r activeDays startDate _ 0 "[]"]
    by (simp add: fillMissingDays_def)
  show "\<forall>r \<in> set (fillMissingDays activeDays startDate endDate).
          (\<forall>day \<in> set activeDays. fst (a_date day) \<noteq> d_date r)
          \<longrightarrow> d_income r = 0 \<and> d_expenses r = 0"
  proof (intro ballI impI)
    fix r
    assume r: "r \<in> set (fillMissingDays activeDays startDate endDate)"
       and "\<forall>day \<in> set activeDays. fst (a_date day) \<noteq> d_date r"
    then have "find (\<lambda>day. fst (a_date day) = d_date r) activeDays = None"
      by (simp add: find_None_iff)
    with entry [OF r] show "d_income r = 0 \<and> d_expenses r = 0" by simp
  qed
  show "\<forall>r \<in> set (fillMissingDays activeDays startDate endDate).
          \<forall>f. find (\<lambda>day. fst (a_date day) = d_date r) activeDays = Some f
              \<longrightarrow> d_income r = a_income f \<and> d_expenses r = a_expenses f"
  proof (intro ballI allI impI)
    fix r f
    assume r: "r \<in> set (fillMissingDays activeDays startDate endDate)"
       and "find (\<lambda>day. fst (a_date day) = d_date r) activeDays = Some f"
    with entry [OF r] show "d_income r = a_income f \<and> d_expenses r = a_expenses f" by simp
  qed
qed

theorem C3_fillMissingDays_witness:
  "[\<lparr>a_date = (1, 3600000), a_income = 5, a_expenses = 7\<rparr>] \<noteq> []
   \<and> ((0, 0) :: date) \<le> (2, 0) \<and> snd ((0, 0) :: date) \<le> snd ((2, 0) :: date)
   \<and> fillMissingDays [\<lparr>a_date = (1, 3600000), a_income = 5, a_expenses = 7\<rparr>] (0, 0) (2, 0)
       = [\<lparr>d_date = 0, d_income = 0, d_expenses = 0\<rparr>,
          \<lparr>d_date = 1, d_income = 5, d_expenses = 7\<rparr>,
          \<lparr>d_date = 2, d_income = 0, d_expenses = 0\<rparr>]
   \<and> map d_date
         (fillMissingDays [\<lparr>a_date = (1, 3600000), a_income = 5, a_expenses = 7\<rparr>] (0, 0) (2, 0))
       = [0, 1, 2]
   \<and> int (length
         (fillMissingDays [\<lparr>a_date = (1, 3600000), a_income = 5, a_expenses = 7\<rparr>] (0, 0) (2, 0)))
       = 3"
proof -
  have ev: "fillMissingDays [\<lparr>a_date = (1, 3600000), a_income = 5, a_expenses = 7\<rparr>] (0, 0) (2, 0)
      = [\<lparr>d_date = 0, d_income = 0, d_expenses = 0\<rparr>,
         \<lparr>d_date = 1, d_income = 5, d_expenses = 7\<rparr>,
         \<lparr>d_date = 2, d_income = 0, d_expenses = 0\<rparr>]"
    by (simp add: fillMissingDays_def differenceInDays_def addDays_def format_date_def
        fill_loop.simps)
  have hyp: "[\<lparr>a_date = (1, 3600000), a_income = 5, a_expenses = 7\<rparr>] \<noteq> []
     \<and> ((0, 0) :: date) \<le> (2, 0) \<and> snd ((0, 0) :: date) \<le> snd ((2, 0) :: date)"
    by simp
  from C3_fillMissingDays
    [of "(0, 0)" "(2, 0)" "[\<lparr>a_date = (1, 3600000), a_income = 5, a_expenses = 7\<rparr>]"] hyp
  have "map d_date
         (fillMissingDays [\<lparr>a_date = (1, 3600000), a_income = 5, a_expenses = 7\<rparr>] (0, 0) (2, 0))
       = [fst ((0, 0) :: date) .. fst ((2, 0) :: date)]
     \<and> int (length
         (fillMissingDays [\<lparr>a_date = (1, 3600000), a_income = 5, a_expenses = 7\<rparr>] (0, 0) (2, 0)))
       = fst ((2, 0) :: date) - fst ((0, 0) :: date) + 1"
    by blast
  then have "map d_date
         (fillMissingDays [\<lparr>a_date = (1, 3600000), a_income = 5, a_expenses = 7\<rparr>] (0, 0) (2, 0))
       = [0, 1, 2]
     \<and> int (length
         (fillMissingDays [\<lparr>a_date = (1, 3600000), a_income = 5, a_expenses = 7\<rparr>] (0, 0) (2, 0)))
       = 3"
    by (simp add: upto_rec1)
  with hyp ev show ?thesis by blast
qed

text \<open>
  With no aggregate the series is empty although the window from day 0 to day 2 has
  three calendar days.
\<close>

theorem C3_fillMissingDays_empty_counterexample:
  "fillMissingDays [] (0, 0) (2, 0) = [] \<and> differenceInDays (2, 0) (0, 0) + 1 = 3"
  by (simp add: fillMissingDays_def differenceInDays_def)

section \<open>Properties of the summary queries\<close>

subsection \<open>Joins\<close>

lemma in_innerJoin_accounts:
  "(t, a) \<in> set (innerJoin_accounts db)
     \<longleftrightarrow> t \<in> set (transactions db) \<and> a \<in> set (accounts db) \<and> tx_accountId t = acc_id a"
  by (auto simp: innerJoin_accounts_def)

lemma in_category_rows:
  "(t, a, c) \<in> set (category_rows db t' a') \<longleftrightarrow> t = t' \<and> a = a'
         \<and> (case c of
               None \<Rightarrow> \<forall>c' \<in> set (categories db). tx_categoryId t \<noteq> Some (cat_id c')
             | Some c' \<Rightarrow> c' \<in> set (categories db) \<and> tx_categoryId t = Some (cat_id c'))"
  by (cases c) (auto simp: category_rows_def Let_def filter_empty_conv)

lemma in_leftJoin_categories:
  "(t, a, c) \<in> set (leftJoin_categories db rows)
     \<longleftrightarrow> (t, a) \<in> set rows
         \<and> (case c of
               None \<Rightarrow> \<forall>c' \<in> set (categories db). tx_categoryId t \<noteq> Some (cat_id c')
             | Some c' \<Rightarrow> c' \<in> set (categories db) \<and> tx_categoryId t = Some (cat_id c'))"
proof -
  have "(t, a, c) \<in> set (leftJoin_categories db rows)
          \<longleftrightarrow> (\<exists>(t', a') \<in> set rows. (t, a, c) \<in> set (category_rows db t' a'))"
    by (auto simp: leftJoin_categories_def)
  then show ?thesis
    by (simp only: in_category_rows) auto
qed

subsection \<open>Period totals\<close>

text \<open>
  What the period query computes on a window with at least one row: the income is the
  sum of the positive amounts, the remaining value the signed sum of all amounts, and
  the expenses the signed sum of the negative amounts, which is the sum of their absolute
  values negated.
\<close>

lemma sum_nonnegative_part:
  "sum_list (map (\<lambda>r. if f r \<ge> 0 then f r else 0) rows)
     = sum_list (filter (\<lambda>x. 0 < x) (map f rows))"
  for f :: "'a \<Rightarrow> int"
  by (induction rows) auto

lemma sum_negative_part:
  "sum_list (map (\<lambda>r. if f r < 0 then f r else 0) rows)
     = - sum_list (map abs (filter (\<lambda>x. x < 0) (map f rows)))"
  for f :: "'a \<Rightarrow> int"
  by (induction rows) auto

lemma sum_signed_parts:
  "sum_list xs = sum_list (filter (\<lambda>x. 0 < x) xs) - sum_list (map abs (filter (\<lambda>x. x < 0) xs))"
  for xs :: "int list"
  by (induction xs) auto

lemma fetchFinancialData_totals:
  assumes "amounts = map (\<lambda>(t, a). tx_amount t)
             (filter (\<lambda>(t, a). window_condition accountId userId s e t a)
                (innerJoin_accounts db))"
      and "amounts \<noteq> []"
  shows "income (fetchFinancialData db accountId userId s e)
           = Some (sum_list (filter (\<lambda>x. 0 < x) amounts))"
    and "expenses (fetchFinancialData db accountId userId s e)
           = Some (- sum_list (map abs (filter (\<lambda>x. x < 0) amounts)))"
    and "remaining (fetchFinancialData db accountId userId s e) = Some (sum_list amounts)"
    and "sum_list amounts = sum_list (filter (\<lambda>x. 0 < x) amounts)
           - sum_list (map abs (filter (\<lambda>x. x < 0) amounts))"
proof -
  let ?rows = "filter (\<lambda>(t, a). window_condition accountId userId s e t a)
                 (innerJoin_accounts db)"
  let ?f = "\<lambda>(t, a). tx_amount t :: int"
  have ne: "?rows \<noteq> []" using assms by auto
  have i: "(\<lambda>(t, a). if tx_amount t \<ge> 0 then tx_amount t else 0)
             = (\<lambda>r. if ?f r \<ge> 0 then ?f r else 0)"
    by (simp add: fun_eq_iff split: prod.split)
  have x: "(\<lambda>(t, a). if tx_amount t < 0 then tx_amount t else 0)
             = (\<lambda>r. if ?f r < 0 then ?f r else 0)"
    by (simp add: fun_eq_iff split: prod.split)
  show "income (fetchFinancialData db accountId userId s e)
           = Some (sum_list (filter (\<lambda>x. 0 < x) amounts))"
    using ne by (simp add: fetchFinancialData_def Let_def sql_sum_def i sum_nonnegative_part assms(1))
  show "expenses (fetchFinancialData db accountId userId s e)
           = Some (- sum_list (map abs (filter (\<lambda>x. x < 0) amounts)))"
    using ne by (simp add: fetchFinancialData_def Let_def sql_sum_def x sum_negative_part assms(1))
  show "remaining (fetchFinancialData db accountId userId s e) = Some (sum_list amounts)"
    using ne by (simp add: fetchFinancialData_def Let_def sql_sum_def assms(1))
  show "sum_list amounts = sum_list (filter (\<lambda>x. 0 < x) amounts)
           - sum_list (map abs (filter (\<lambda>x. x < 0) amounts))"
    by (rule sum_signed_parts)
qed

text \<open>
  Claim C1, on a window holding an income of 7000 and an expense of 5000: the income
  is 7000 and the remaining value is the signed sum 2000, but the expenses column is the
  signed sum -5000 of the negative amounts, not the sum 5000 of their absolute values,
  so that the remaining value is not the income minus the reported expenses.
\<close>

theorem C1_fetchFinancialData_expenses_signed:
  "fetchFinancialData ledger_db None ''user_a'' (0, 0) (30, 0)
     = \<lparr>income = Some 7000, expenses = Some (- 5000), remaining = Some 2000\<rparr>"
  by (simp add: fetchFinancialData_def ledger_db_def innerJoin_accounts_def
      window_condition_def truthy_def sql_sum_def)


subsection \<open>Category breakdown\<close>

lemma those_map:
  "those (map f xs)
     = (if \<exists>x \<in> set xs. f x = None then None else Some (map (\<lambda>x. the (f x)) xs))"
  by (induction xs) (auto split: option.splits)

lemma sort_key_map: "sort_key f (map g xs) = map g (sort_key (\<lambda>x. f (g x)) xs)"
proof (induction xs)
  case Nil
  show ?case by simp
next
  case (Cons x xs)
  have ins: "insort_key f (g x) (map g ys) = map g (insort_key (\<lambda>x. f (g x)) x ys)" for ys
    by (induction ys) simp_all
  show ?case by (simp add: Cons ins)
qed

lemma filter_unique:
  "distinct (map f xs) \<Longrightarrow>
   filter (\<lambda>x. f x = k) xs = (case find (\<lambda>x. f x = k) xs of None \<Rightarrow> [] | Some x \<Rightarrow> [x])"
proof (induction xs)
  case Nil
  show ?case by simp
next
  case (Cons x xs)
  show ?case
  proof (cases "f x = k")
    case True
    have "f y \<noteq> k" if "y \<in> set xs" for y
      using that Cons.prems True by (auto simp: image_iff)
    then have "filter (\<lambda>y. f y = k) xs = []"
      by (simp add: filter_empty_conv)
    with True show ?thesis by simp
  next
    case False
    with Cons show ?thesis by simp
  qed
qed

lemma int4_abs_None: "int4_abs x = None \<longleftrightarrow> x \<le> - 2147483648"
  by (simp add: int4_abs_def)

lemma int4_abs_the: "- 2147483648 < x \<Longrightarrow> the (int4_abs x) = \<bar>x\<bar>"
  by (simp add: int4_abs_def)

lemma group_total_eq:
  "group_total rows k =
     (if \<exists>(t, a, c) \<in> set rows. group_key (t, a, c) = k \<and> tx_amount t \<le> - 2147483648 then None
      else Some \<lparr>name = (case k of None \<Rightarrow> ''Uncategorized'' | Some n \<Rightarrow> n),
                 value = sum_list (map (\<lambda>(t, a, c). \<bar>tx_amount t\<bar>)
                                   (filter (\<lambda>r. group_key r = k) rows))\<rparr>)"
proof -
  let ?grp = "filter (\<lambda>r. group_key r = k) rows"
  have ex: "(\<exists>r \<in> set ?grp. (case r of (t, a, c) \<Rightarrow> int4_abs (tx_amount t)) = None)
        \<longleftrightarrow> (\<exists>(t, a, c) \<in> set rows. group_key (t, a, c) = k \<and> tx_amount t \<le> - 2147483648)"
    by (auto simp: int4_abs_None)
  show ?thesis
  proof (cases "\<exists>(t, a, c) \<in> set rows. group_key (t, a, c) = k \<and> tx_amount t \<le> - 2147483648")
    case True
    with ex have "\<exists>r \<in> set ?grp. (case r of (t, a, c) \<Rightarrow> int4_abs (tx_amount t)) = None"
      by blast
    then have "those (map (\<lambda>(t, a, c). int4_abs (tx_amount t)) ?grp) = None"
      by (simp only: those_map if_True)
    with True show ?thesis
      by (simp add: group_total_def)
  next
    case False
    with ex have none: "\<not> (\<exists>r \<in> set ?grp.
        (case r of (t, a, c) \<Rightarrow> int4_abs (tx_amount t)) = None)"
      by blast
    have "map (\<lambda>r. the (case r of (t, a, c) \<Rightarrow> int4_abs (tx_amount t))) ?grp
        = map (\<lambda>(t, a, c). \<bar>tx_amount t\<bar>) ?grp"
    proof (rule map_cong [OF refl])
      fix r assume "r \<in> set ?grp"
      with none have "(case r of (t, a, c) \<Rightarrow> int4_abs (tx_amount t)) \<noteq> None"
        by (auto simp del: set_filter)
      then show "the (case r of (t, a, c) \<Rightarrow> int4_abs (tx_amount t))
                   = (case r of (t, a, c) \<Rightarrow> \<bar>tx_amount t\<bar>)"
        by (cases r) (auto simp: int4_abs_def split: if_splits)
    qed
    with none have "those (map (\<lambda>(t, a, c). int4_abs (tx_amount t)) ?grp)
        = Some (map (\<lambda>(t, a, c). \<bar>tx_amount t\<bar>) ?grp)"
      by (simp only: those_map if_False)
    with False show ?thesis
      by (simp add: group_total_def coalesce_def)
  qed
qed

lemma topCategories_eq:
  "topCategories db accountId userId s e =
     (let rows = expense_rows db accountId userId s e
      in if \<exists>(t, a, c) \<in> set rows. tx_amount t \<le> - 2147483648 then None
         else Some (take 4 (orderBy_desc value
                (map (\<lambda>k. \<lparr>name = (case k of None \<Rightarrow> ''Uncategorized'' | Some n \<Rightarrow> n),
                           value = sum_list (map (\<lambda>(t, a, c). \<bar>tx_amount t\<bar>)
                                             (filter (\<lambda>r. group_key r = k) rows))\<rparr>)
                     (remdups (map group_key rows))))))"
proof -
  let ?rows = "expense_rows db accountId userId s e"
  show ?thesis
  proof (cases "\<exists>(t, a, c) \<in> set ?rows. tx_amount t \<le> - 2147483648")
    case True
    then obtain t a c where r: "(t, a, c) \<in> set ?rows" "tx_amount t \<le> - 2147483648"
      by blast
    then have "group_total ?rows (group_key (t, a, c)) = None"
      by (subst group_total_eq) auto
    moreover have "group_key (t, a, c) \<in> set (remdups (map group_key ?rows))"
      using r(1) by force
    ultimately have "\<exists>k \<in> set (remdups (map group_key ?rows)). group_total ?rows k = None"
      by blast
    with True show ?thesis
      by (simp add: topCategories_def Let_def those_map del: set_remdups)
  next
    case False
    then have g: "group_total ?rows k
        = Some \<lparr>name = (case k of None \<Rightarrow> ''Uncategorized'' | Some n \<Rightarrow> n),
                 value = sum_list (map (\<lambda>(t, a, c). \<bar>tx_amount t\<bar>)
                                   (filter (\<lambda>r. group_key r = k) ?rows))\<rparr>" for k
      by (subst group_total_eq) auto
    from False show ?thesis
      by (simp add: topCategories_def Let_def those_map g)
  qed
qed


lemma category_rows_unique:
  assumes "distinct (map cat_id (categories db))"
  shows "category_rows db t a
           = [(t, a, find (\<lambda>c. tx_categoryId t = Some (cat_id c)) (categories db))]"
proof (cases "tx_categoryId t")
  case None
  then show ?thesis by (simp add: category_rows_def find_None_iff2)
next
  case (Some k)
  have f: "filter (\<lambda>c. tx_categoryId t = Some (cat_id c)) (categories db)
             = filter (\<lambda>c. cat_id c = k) (categories db)"
    by (simp add: Some eq_commute)
  have g: "find (\<lambda>c. tx_categoryId t = Some (cat_id c)) (categories db)
             = find (\<lambda>c. cat_id c = k) (categories db)"
    by (simp add: Some eq_commute)
  show ?thesis
    unfolding category_rows_def f g filter_unique [OF assms]
    by (simp split: option.split)
qed

lemma leftJoin_append:
  "leftJoin_categories db (xs @ ys) = leftJoin_categories db xs @ leftJoin_categories db ys"
  by (simp add: leftJoin_categories_def)

lemma owner_unique:
  assumes "distinct (map acc_id accs)"
  shows "(\<exists>a \<in> set accs. acc_id a = i \<and> P a)
           \<longleftrightarrow> (case find (\<lambda>a. acc_id a = i) accs of None \<Rightarrow> False | Some a \<Rightarrow> P a)"
proof (cases "find (\<lambda>a. acc_id a = i) accs")
  case None
  then have "\<forall>x \<in> set accs. acc_id x \<noteq> i" by (simp add: find_None_iff)
  with None show ?thesis by simp
next
  case (Some a)
  have "filter (\<lambda>a. acc_id a = i) accs = [a]"
    by (simp only: filter_unique [OF assms, of i] Some option.case)
  then have "{x \<in> set accs. acc_id x = i} = {a}"
    by (metis list.set(1) list.simps(15) set_filter)
  then have m: "x \<in> set accs \<and> acc_id x = i \<longleftrightarrow> x = a" for x
    by (auto simp: set_eq_iff)
  have "(\<exists>x \<in> set accs. acc_id x = i \<and> P x) \<longleftrightarrow> P a"
    using m by (metis (full_types))
  with Some show ?thesis by simp
qed

lemma expense_rows_refine:
  assumes "distinct (map acc_id (accounts db))" and "distinct (map cat_id (categories db))"
  shows "map (\<lambda>(t, a, c). (t, map_option cat_name c)) (expense_rows db accountId userId s e)
       = map (\<lambda>t. (t, map_option cat_name
                          (find (\<lambda>c. tx_categoryId t = Some (cat_id c)) (categories db))))
           (filter (\<lambda>t. tx_amount t < 0 \<and> s \<le> tx_date t \<and> tx_date t \<le> e
                         \<and> (truthy accountId \<longrightarrow> Some (tx_accountId t) = accountId)
                         \<and> (\<exists>a \<in> set (accounts db).
                               acc_id a = tx_accountId t \<and> acc_userId a = userId))
              (transactions db))"
proof -
  let ?h = "\<lambda>(t, a, c). (t, map_option cat_name c)"
  let ?P = "\<lambda>(t, a, c). window_condition accountId userId s e t a \<and> tx_amount t < 0"
  let ?J = "\<lambda>t. map (\<lambda>a. (t, a)) (filter (\<lambda>a. tx_accountId t = acc_id a) (accounts db))"
  let ?label = "\<lambda>t. map_option cat_name
                   (find (\<lambda>c. tx_categoryId t = Some (cat_id c)) (categories db))"
  let ?E = "\<lambda>t. tx_amount t < 0 \<and> s \<le> tx_date t \<and> tx_date t \<le> e
              \<and> (truthy accountId \<longrightarrow> Some (tx_accountId t) = accountId)
              \<and> (\<exists>a \<in> set (accounts db). acc_id a = tx_accountId t \<and> acc_userId a = userId)"
  have fa: "filter (\<lambda>a. tx_accountId t = acc_id a) (accounts db)
              = filter (\<lambda>a. acc_id a = tx_accountId t) (accounts db)" for t
    by (rule filter_cong) auto
  have one: "map ?h (filter ?P (leftJoin_categories db (?J t)))
               = (if ?E t then [(t, ?label t)] else [])" for t
  proof (cases "find (\<lambda>a. acc_id a = tx_accountId t) (accounts db)")
    case None
    have "?J t = []"
      by (simp only: fa filter_unique [OF assms(1), of "tx_accountId t"] None option.case
          list.map)
    moreover from None owner_unique [OF assms(1), of "tx_accountId t" "\<lambda>a. acc_userId a = userId"]
    have "\<not> ?E t" by simp
    ultimately show ?thesis by (simp add: leftJoin_categories_def)
  next
    case (Some a)
    have j: "?J t = [(t, a)]"
      by (simp only: fa filter_unique [OF assms(1), of "tx_accountId t"] Some option.case
          list.map)
    from Some owner_unique [OF assms(1), of "tx_accountId t" "\<lambda>a. acc_userId a = userId"]
    have o: "(\<exists>a \<in> set (accounts db). acc_id a = tx_accountId t \<and> acc_userId a = userId)
               \<longleftrightarrow> acc_userId a = userId"
      by simp
    show ?thesis
      unfolding j o
      by (simp add: leftJoin_categories_def category_rows_unique [OF assms(2)]
          window_condition_def)
  qed
  have "map ?h (filter ?P (leftJoin_categories db (concat (map ?J txs))))
          = map (\<lambda>t. (t, ?label t)) (filter ?E txs)" for txs
  proof (induction txs)
    case Nil
    show ?case by (simp add: leftJoin_categories_def)
  next
    case (Cons t txs)
    have "map ?h (filter ?P (leftJoin_categories db (concat (map ?J (t # txs)))))
            = map ?h (filter ?P (leftJoin_categories db (?J t)))
              @ map ?h (filter ?P (leftJoin_categories db (concat (map ?J txs))))"
      by (simp add: leftJoin_append)
    also have "\<dots> = (if ?E t then [(t, ?label t)] else []) @ map (\<lambda>t. (t, ?label t)) (filter ?E txs)"
      by (simp only: one Cons.IH)
    also have "\<dots> = map (\<lambda>t. (t, ?label t)) (filter ?E (t # txs))"
      by simp
    finally show ?case .
  qed
  then show ?thesis
    by (simp add: expense_rows_def innerJoin_accounts_def)
qed


lemma sorted_orderBy_desc: "sorted_wrt (\<lambda>x y. f y \<le> f x) (orderBy_desc f xs)"
  unfolding orderBy_desc_def
  using sorted_sort_key [of f xs]
  by (simp add: sorted_wrt_rev sorted_map)

lemma set_orderBy_desc: "set (orderBy_desc f xs) = set xs"
  by (simp add: orderBy_desc_def)

lemma orderBy_desc_map: "orderBy_desc f (map g xs) = map g (orderBy_desc (\<lambda>x. f (g x)) xs)"
  by (simp add: orderBy_desc_def sort_key_map rev_map)

lemma take_dominates:
  assumes "sorted_wrt (\<lambda>x y. f y \<le> f x) L" and "y \<in> set L - set (take n L)"
      and "x \<in> set (take n L)"
  shows "f y \<le> f x"
proof -
  from assms(2) have "y \<in> set (take n L) \<union> set (drop n L)"
    by (metis DiffD1 append_take_drop_id set_append)
  with assms(2) have d: "y \<in> set (drop n L)" by blast
  from assms(1) have "sorted_wrt (\<lambda>x y. f y \<le> f x) (take n L @ drop n L)" by simp
  then have "\<forall>x \<in> set (take n L). \<forall>y \<in> set (drop n L). f y \<le> f x"
    by (simp only: sorted_wrt_append) blast
  with d assms(3) show ?thesis by blast
qed

text \<open>
  Claim C4. The expenses of the window are the transactions with a negative amount, dated
  in the window, in an account of the user (and in the account asked for, when one is);
  the label of a transaction is the name of its category, and none when it has no category;
  the amount spent under a label is the sum of the absolute amounts of the expenses with
  that label. With unique account and category ids, the query fails exactly when an
  expense has the amount -2147483648, whose absolute value is no 32-bit integer. When
  it answers, the breakdown lists min(4, number of labels) distinct labels of the
  expenses, each with the amount spent under it, the label none named \<open>Uncategorized\<close>,
  in descending order of amount; a label left out has spent no more than any label listed.
\<close>

theorem C4_topCategories:
  fixes db :: database and accountId :: "string option" and userId :: string
    and startDate endDate :: date
  defines "expense \<equiv> \<lambda>t. tx_amount t < 0 \<and> startDate \<le> tx_date t \<and> tx_date t \<le> endDate
      \<and> (case accountId of None \<Rightarrow> True | Some i \<Rightarrow> i = [] \<or> tx_accountId t = i)
      \<and> (\<exists>a \<in> set (accounts db). acc_id a = tx_accountId t \<and> acc_userId a = userId)"
  defines "label \<equiv> \<lambda>t. map_option cat_name
      (find (\<lambda>c. tx_categoryId t = Some (cat_id c)) (categories db))"
  defines "spent \<equiv> \<lambda>k. sum_list (map (\<lambda>t. \<bar>tx_amount t\<bar>)
      (filter (\<lambda>t. expense t \<and> label t = k) (transactions db)))"
  defines "keys \<equiv> label ` {t \<in> set (transactions db). expense t}"
  assumes pk_accounts: "distinct (map acc_id (accounts db))"
      and pk_categories: "distinct (map cat_id (categories db))"
  shows "(topCategories db accountId userId startDate endDate = None
            \<longleftrightarrow> (\<exists>t \<in> set (transactions db). expense t \<and> tx_amount t \<le> - 2147483648))
     \<and> (\<forall>R. topCategories db accountId userId startDate endDate = Some R \<longrightarrow>
            (\<exists>ks. distinct ks \<and> set ks \<subseteq> keys \<and> length ks = min 4 (card keys)
               \<and> R = map (\<lambda>k. \<lparr>name = (case k of None \<Rightarrow> ''Uncategorized'' | Some n \<Rightarrow> n),
                                 value = spent k\<rparr>) ks
               \<and> sorted_wrt (\<lambda>k k'. spent k' \<le> spent k) ks
               \<and> (\<forall>k \<in> keys - set ks. \<forall>k' \<in> set ks. spent k \<le> spent k')))"
proof -
  let ?rows = "expense_rows db accountId userId startDate endDate"
  let ?h = "\<lambda>(t, a, c). (t, map_option cat_name c)"
  let ?E = "filter expense (transactions db)"
  let ?total = "\<lambda>k. \<lparr>name = (case k of None \<Rightarrow> ''Uncategorized'' | Some n \<Rightarrow> n),
                      value = spent k\<rparr>"
  have ex: "expense = (\<lambda>t. tx_amount t < 0 \<and> startDate \<le> tx_date t \<and> tx_date t \<le> endDate
      \<and> (truthy accountId \<longrightarrow> Some (tx_accountId t) = accountId)
      \<and> (\<exists>a \<in> set (accounts db). acc_id a = tx_accountId t \<and> acc_userId a = userId))"
    by (auto simp: expense_def truthy_def fun_eq_iff split: option.split)
  have h: "map ?h ?rows = map (\<lambda>t. (t, label t)) ?E"
    unfolding ex label_def by (rule expense_rows_refine [OF pk_accounts pk_categories])
  have "map (\<lambda>(t, a, c). t) ?rows = map fst (map ?h ?rows)"
    by (simp add: case_prod_beta)
  then have txs: "map (\<lambda>(t, a, c). t) ?rows = ?E"
    by (simp add: h o_def)
  have "map group_key ?rows = map snd (map ?h ?rows)"
    by (simp add: group_key_def case_prod_beta)
  then have ks: "map group_key ?rows = map label ?E"
    by (simp add: h o_def)
  have sums: "sum_list (map (\<lambda>(t, a, c). \<bar>tx_amount t\<bar>) (filter (\<lambda>r. group_key r = k) ?rows))
      = spent k" for k
  proof -
    have "map (\<lambda>(t, a, c). \<bar>tx_amount t\<bar>) (filter (\<lambda>r. group_key r = k) ?rows)
        = map (\<lambda>p. \<bar>tx_amount (fst p)\<bar>) (filter (\<lambda>p. snd p = k) (map ?h ?rows))"
      by (simp add: filter_map o_def group_key_def case_prod_beta)
    also have "\<dots> = map (\<lambda>t. \<bar>tx_amount t\<bar>) (filter (\<lambda>t. label t = k) ?E)"
      by (simp add: h filter_map o_def)
    also have "filter (\<lambda>t. label t = k) ?E
        = filter (\<lambda>t. expense t \<and> label t = k) (transactions db)"
      by simp
    finally have e: "map (\<lambda>(t, a, c). \<bar>tx_amount t\<bar>) (filter (\<lambda>r. group_key r = k) ?rows)
        = map (\<lambda>t. \<bar>tx_amount t\<bar>) (filter (\<lambda>t. expense t \<and> label t = k) (transactions db))" .
    show ?thesis unfolding spent_def by (simp only: e)
  qed
  have over: "(\<exists>(t, a, c) \<in> set ?rows. tx_amount t \<le> - 2147483648)
      \<longleftrightarrow> (\<exists>t \<in> set (transactions db). expense t \<and> tx_amount t \<le> - 2147483648)"
  proof -
    have "(\<exists>(t, a, c) \<in> set ?rows. tx_amount t \<le> - 2147483648)
        \<longleftrightarrow> (\<exists>t \<in> set (map (\<lambda>(t, a, c). t) ?rows). tx_amount t \<le> - 2147483648)"
      by (auto simp: case_prod_beta)
    then show ?thesis by (simp add: txs) blast
  qed
  let ?groups = "remdups (map label ?E)"
  let ?top = "take 4 (orderBy_desc spent ?groups)"
  have top: "topCategories db accountId userId startDate endDate
      = (if \<exists>t \<in> set (transactions db). expense t \<and> tx_amount t \<le> - 2147483648 then None
         else Some (map ?total ?top))"
    by (simp add: topCategories_eq Let_def over sums ks orderBy_desc_map take_map)
  have keys: "set ?groups = keys"
    by (auto simp: keys_def)
  have d: "distinct ?top"
    by (simp add: orderBy_desc_def)
  have sub: "set ?top \<subseteq> keys"
    using set_take_subset [of 4 "orderBy_desc spent ?groups"]
    by (simp only: set_orderBy_desc keys)
  have "length ?groups = card keys"
    using keys by (metis distinct_card distinct_remdups)
  then have len: "length ?top = min 4 (card keys)"
    by (simp add: orderBy_desc_def min.commute)
  have srt: "sorted_wrt (\<lambda>k k'. spent k' \<le> spent k) ?top"
    by (rule sorted_wrt_take) (rule sorted_orderBy_desc)
  have dom: "\<forall>k \<in> keys - set ?top. \<forall>k' \<in> set ?top. spent k \<le> spent k'"
  proof (intro ballI)
    fix k k' assume "k \<in> keys - set ?top" and k': "k' \<in> set ?top"
    then have "k \<in> set (orderBy_desc spent ?groups) - set ?top"
      by (simp only: set_orderBy_desc keys)
    from take_dominates [OF sorted_orderBy_desc this k'] show "spent k \<le> spent k'" .
  qed
  show ?thesis
  proof (intro conjI allI impI)
    show "topCategories db accountId userId startDate endDate = None
            \<longleftrightarrow> (\<exists>t \<in> set (transactions db). expense t \<and> tx_amount t \<le> - 2147483648)"
      by (simp add: top)
  next
    fix R assume "topCategories db accountId userId startDate endDate = Some R"
    then have "R = map ?total ?top"
      by (simp add: top split: if_splits)
    with d sub len srt dom
    show "\<exists>ks. distinct ks \<and> set ks \<subseteq> keys \<and> length ks = min 4 (card keys)
               \<and> R = map ?total ks
               \<and> sorted_wrt (\<lambda>k k'. spent k' \<le> spent k) ks
               \<and> (\<forall>k \<in> keys - set ks. \<forall>k' \<in> set ks. spent k \<le> spent k')"
      by blast
  qed
qed


lemma household_expense_rows: "expense_rows household_db None ''user_a'' (0, 0) (30, 0) =
    [(transactions household_db ! 1, accounts household_db ! 0, Some (categories household_db ! 0)),
     (transactions household_db ! 2, accounts household_db ! 0, Some (categories household_db ! 1)),
     (transactions household_db ! 3, accounts household_db ! 0, Some (categories household_db ! 0)),
     (transactions household_db ! 4, accounts household_db ! 0, None)]"
  by (simp add: expense_rows_def leftJoin_categories_def category_rows_def innerJoin_accounts_def
      household_db_def window_condition_def truthy_def)

lemma household_topCategories: "topCategories household_db None ''user_a'' (0, 0) (30, 0) =
    Some [\<lparr>name = ''Rent'', value = 9000\<rparr>, \<lparr>name = ''Uncategorized'', value = 5000\<rparr>,
          \<lparr>name = ''Food'', value = 4000\<rparr>]"
  by (simp only: topCategories_def household_expense_rows Let_def)
    (simp add: group_key_def group_total_def coalesce_def int4_abs_def orderBy_desc_def
      household_db_def)

theorem C4_topCategories_witness:
  "distinct (map acc_id (accounts household_db))
   \<and> distinct (map cat_id (categories household_db))
   \<and> topCategories household_db None ''user_a'' (0, 0) (30, 0) =
       Some [\<lparr>name = ''Rent'', value = 9000\<rparr>, \<lparr>name = ''Uncategorized'', value = 5000\<rparr>,
             \<lparr>name = ''Food'', value = 4000\<rparr>]
   \<and> (\<exists>ks. distinct ks
          \<and> map (\<lambda>k. case k of None \<Rightarrow> ''Uncategorized'' | Some n \<Rightarrow> n) ks
              = [''Rent'', ''Uncategorized'', ''Food''])"
proof -
  have pk_accounts: "distinct (map acc_id (accounts household_db))"
    by (simp add: household_db_def)
  have pk_categories: "distinct (map cat_id (categories household_db))"
    by (simp add: household_db_def)
  let ?total = "\<lambda>k. \<lparr>name = (case k of None \<Rightarrow> ''Uncategorized'' | Some n \<Rightarrow> n),
       value = sum_list (map (\<lambda>t. \<bar>tx_amount t\<bar>)
         (filter (\<lambda>t. (tx_amount t < 0 \<and> (0, 0) \<le> tx_date t \<and> tx_date t \<le> (30, 0)
              \<and> (case None :: string option of None \<Rightarrow> True
                  | Some i \<Rightarrow> i = [] \<or> tx_accountId t = i)
              \<and> (\<exists>a \<in> set (accounts household_db).
                     acc_id a = tx_accountId t \<and> acc_userId a = ''user_a''))
            \<and> map_option cat_name
                  (find (\<lambda>c. tx_categoryId t = Some (cat_id c)) (categories household_db)) = k)
          (transactions household_db)))\<rparr>"
  from C4_topCategories [OF pk_accounts pk_categories, of None "''user_a''" "(0, 0)" "(30, 0)",
      THEN conjunct2, rule_format, OF household_topCategories]
  obtain ks :: "string option list" where "distinct ks"
    and "[\<lparr>name = ''Rent'', value = 9000\<rparr>, \<lparr>name = ''Uncategorized'', value = 5000\<rparr>,
          \<lparr>name = ''Food'', value = (4000 :: int)\<rparr>] = map ?total ks"
    by (elim exE conjE)
  then have "distinct ks \<and> map name [\<lparr>name = ''Rent'', value = 9000\<rparr>, \<lparr>name = ''Uncategorized'', value = 5000\<rparr>,
          \<lparr>name = ''Food'', value = (4000 :: int)\<rparr>] = map (\<lambda>k. case k of None \<Rightarrow> ''Uncategorized'' | Some n \<Rightarrow> n) ks"
    by (simp add: o_def)
  then have "\<exists>ks. distinct ks
          \<and> map (\<lambda>k. case k of None \<Rightarrow> ''Uncategorized'' | Some n \<Rightarrow> n) ks
              = [''Rent'', ''Uncategorized'', ''Food'']"
    by (intro exI [of _ ks]) simp
  with pk_accounts pk_categories household_topCategories show ?thesis
    by (intro conjI)
qed

lemma topCategories_abs_out_of_range:
  "topCategories
     (household_db \<lparr>transactions :=
        [\<lparr>tx_id = ''t9'', tx_amount = - 2147483648, tx_date = (11, 0), tx_payee = ''Bank'',
          tx_notes = None, tx_accountId = ''acc1'', tx_categoryId = None\<rparr>]\<rparr>)
     None ''user_a'' (0, 0) (30, 0) = None"
  by (simp add: topCategories_def expense_rows_def leftJoin_categories_def category_rows_def
      innerJoin_accounts_def household_db_def window_condition_def truthy_def group_key_def
      group_total_def int4_abs_def)

section \<open>Properties of the CSV import\<close>

subsection \<open>Progress of the column mapping\<close>

text \<open>
  Claim C7. While no import is running, the progress shown by the import table is 100
  exactly when each of the required fields amount, date and payee is the value of some
  column of the mapping, and 0 otherwise; and the Continue button is disabled whenever the
  progress is below 100.
\<close>

theorem C7_getProgress:
  assumes "\<not> isImporting"
  shows "(getProgress isImporting progress selectedColumns = 100
            \<longleftrightarrow> (\<forall>field \<in> {''amount'', ''date'', ''payee''}.
                   \<exists>column. (column, Some field) \<in> set selectedColumns))
         \<and> (getProgress isImporting progress selectedColumns \<noteq> 100
              \<longrightarrow> getProgress isImporting progress selectedColumns = 0)
         \<and> (getProgress isImporting progress selectedColumns < 100
              \<longrightarrow> continue_disabled isImporting progress selectedColumns)"
  using assms
  by (auto simp: getProgress_def continue_disabled_def requiredOptions_def Let_def image_iff)

lemma coffee_columns_entries:
  "coffee_columns = [(0, Some ''date''), (1, Some ''amount''), (2, Some ''payee'')]"
  by (simp add: coffee_columns_def onTableHeadSelectChange_def)

theorem C7_getProgress_witness:
  "\<not> False
   \<and> (\<exists>column. (column, Some ''amount'') \<in> set coffee_columns)
   \<and> (\<exists>column. (column, Some ''date'') \<in> set coffee_columns)
   \<and> (\<exists>column. (column, Some ''payee'') \<in> set coffee_columns)
   \<and> getProgress False 0 coffee_columns = 100
   \<and> getProgress False 0 [(0, Some ''date''), (1, None)] \<noteq> 100
   \<and> getProgress False 0 [(0, Some ''date''), (1, None)] = 0
   \<and> getProgress False 0 [(0, Some ''date''), (1, None)] < 100
   \<and> continue_disabled False 0 [(0, Some ''date''), (1, None)]"
proof -
  have mapped: "\<forall>field \<in> {''amount'', ''date'', ''payee''}.
         \<exists>column. (column, Some field) \<in> set coffee_columns"
    by (simp add: coffee_columns_entries)
  have unmapped: "\<not> (\<forall>field \<in> {''amount'', ''date'', ''payee''}.
         \<exists>column. (column, Some field) \<in> set [(0::nat, Some ''date''), (1, None)])"
    by simp
  from C7_getProgress [of False 0 coffee_columns] mapped
  have full: "getProgress False 0 coffee_columns = 100" by simp
  from C7_getProgress [of False 0 "[(0, Some ''date''), (1, None)]"] unmapped
  have "getProgress False 0 [(0, Some ''date''), (1, None)] \<noteq> 100
        \<and> getProgress False 0 [(0, Some ''date''), (1, None)] = 0
        \<and> getProgress False 0 [(0, Some ''date''), (1, None)] < 100
        \<and> continue_disabled False 0 [(0, Some ''date''), (1, None)]"
    by auto
  with mapped full show ?thesis by simp
qed

subsection \<open>The payload of an imported row\<close>

lemma coffee_rows:
  "handleContinue coffee_csv coffee_columns =
     [[(''amount'', Some ''25.50''), (''date'', Some ''2024-01-01''),
       (''payee'', Some ''Coffee Shop''), (''notes'', Some ''''), (''category'', Some '''')]]"
  by (simp add: coffee_columns_entries handleContinue_def coffee_csv_def requiredOptions_def
      optionalOptions_def cellValue_def getColumnIndex_def)

lemma coffee_amount:
  "Math_round (map_option (\<lambda>x. x * 1000) (parseFloat (Some ''25.50''))) = Some 25500"
  by (simp add: Math_round_def parseFloat_def parse_sign_def parse_exponent_def is_space_def
      is_digit_def digits_value_def floor_eq_iff)

lemma date_without_time: "parse_dateFormat (Some ''2024-01-01'') = None"
  by (simp add: parse_dateFormat_def parseNDigits_def parseLiteral_def is_digit_def
      digits_value_def)

text \<open>The pattern is met by a date that is followed by a time.\<close>

lemma date_with_time:
  "parse_dateFormat (Some ''2024-01-01 00:00:00'')
     = Some \<lparr>year = 2024, month = 1, day = 1, hour = 0, minute = 0, second = 0\<rparr>"
  by (simp add: parse_dateFormat_def parseNDigits_def parseLiteral_def is_digit_def
      digits_value_def valid_civil_time_def daysInMonth_def)

text \<open>
  Claim C6, on the import it names: the payload has the amount 25500 and the payee
  \<open>Coffee Shop\<close>, but its date is an \<open>Invalid Date\<close> and not the first of January 2024,
  since \<open>2024-01-01\<close> lacks the time the pattern \<open>yyyy-MM-dd HH:mm:ss\<close> asks for.
\<close>

theorem C6_import_payload_invalid_date:
  "onSubmitImport (handleContinue coffee_csv coffee_columns)
     = [\<lparr>p_amount = Some 25500, p_date = None, p_payee = Some ''Coffee Shop'',
         p_notes = Some '''', p_category = Some '''', p_accountId = ''''\<rparr>]"
  by (simp add: coffee_rows onSubmitImport_def property_def coffee_amount date_without_time)

section \<open>Properties of the route handlers\<close>

subsection \<open>Requests without a session\<close>




subsection \<open>Bulk creation of transactions\<close>

lemma distinct_new_Set: "distinct (new_Set xs)"
  by (simp add: new_Set_def)

lemma set_new_Set: "set (new_Set xs) = set xs"
  by (simp add: new_Set_def)

lemma owned_accounts_length:
  assumes "distinct (map acc_id accs)" and "distinct ids"
  shows "length (map acc_id (filter (\<lambda>a. acc_userId a = u \<and> acc_id a \<in> set ids) accs))
           = length ids
         \<longleftrightarrow> (\<forall>i \<in> set ids. \<exists>a \<in> set accs. acc_id a = i \<and> acc_userId a = u)"
proof -
  let ?own = "filter (\<lambda>a. acc_userId a = u \<and> acc_id a \<in> set ids) accs"
  let ?S = "{i \<in> set ids. \<exists>a \<in> set accs. acc_id a = i \<and> acc_userId a = u}"
  have d: "distinct (map acc_id ?own)"
    using assms(1) by (rule distinct_map_filter)
  have s: "set (map acc_id ?own) = ?S"
    by (simp add: set_eq_iff image_iff) blast
  have sub: "?S \<subseteq> set ids"
    by (rule Collect_restrict)
  have l1: "length (map acc_id ?own) = card ?S"
    using distinct_card [OF d] by (simp only: s)
  have l2: "length ids = card (set ids)"
    using assms(2) by (simp add: distinct_card)
  have c: "card ?S = card (set ids) \<longleftrightarrow> ?S = set ids"
  proof
    assume "card ?S = card (set ids)"
    with card_subset_eq [OF finite_set sub] show "?S = set ids" .
  next
    assume "?S = set ids"
    then show "card ?S = card (set ids)" by (rule arg_cong)
  qed
  have e: "?S = set ids
             \<longleftrightarrow> (\<forall>i \<in> set ids. \<exists>a \<in> set accs. acc_id a = i \<and> acc_userId a = u)"
    by blast
  show ?thesis
    by (simp only: l1 l2 c e)
qed

text \<open>The rows that the handler hands to the insert, and when the table takes them.\<close>

lemma new_rows_nth:
  assumes "k < length vals"
  shows "map (\<lambda>k. with_id (createId k) (vals ! k)) [0..<length vals] ! k
           = with_id (createId k) (vals ! k)"
  using assms by simp

lemma new_rows_ids:
  "map tx_id (map (\<lambda>k. with_id (createId k) (vals ! k)) [0..<length vals])
     = map createId [0..<length vals]"
  by (simp add: with_id_def o_def)

lemma accepted_new_rows:
  assumes "distinct (map tx_id (transactions db))"
  shows "accepted db (map (\<lambda>k. with_id (createId k) (vals ! k)) [0..<length vals])
     \<longleftrightarrow> (\<forall>k < length vals. createId k \<notin> set (map tx_id (transactions db)))
         \<and> inj_on createId {..< length vals}
         \<and> (\<forall>v \<in> set vals. - 2147483648 \<le> n_amount v \<and> n_amount v \<le> 2147483647
                \<and> n_accountId v \<in> set (map acc_id (accounts db))
                \<and> (\<forall>c. n_categoryId v = Some c \<longrightarrow> c \<in> set (map cat_id (categories db))))"
proof -
  let ?data = "map (\<lambda>k. with_id (createId k) (vals ! k)) [0..<length vals]"
  have ids: "distinct (map tx_id (transactions db @ ?data))
     \<longleftrightarrow> (\<forall>k < length vals. createId k \<notin> set (map tx_id (transactions db)))
         \<and> inj_on createId {..< length vals}"
  proof -
    have "distinct (map tx_id (transactions db @ ?data))
        \<longleftrightarrow> distinct (map createId [0..<length vals])
            \<and> set (map tx_id (transactions db)) \<inter> set (map createId [0..<length vals]) = {}"
      using assms by (simp only: map_append distinct_append new_rows_ids) simp
    also have "distinct (map createId [0..<length vals]) \<longleftrightarrow> inj_on createId {..< length vals}"
      by (simp add: distinct_map atLeast0LessThan)
    also have "set (map tx_id (transactions db)) \<inter> set (map createId [0..<length vals]) = {}
        \<longleftrightarrow> (\<forall>k < length vals. createId k \<notin> set (map tx_id (transactions db)))"
      (is "?L \<longleftrightarrow> ?R")
    proof
      assume l: ?L
      show ?R
      proof (intro allI impI)
        fix k assume "k < length vals"
        then have "createId k \<in> set (map createId [0..<length vals])" by simp
        with l show "createId k \<notin> set (map tx_id (transactions db))" by blast
      qed
    next
      assume r: ?R
      show ?L
      proof (rule ccontr)
        assume "\<not> ?L"
        then obtain x where x: "x \<in> set (map tx_id (transactions db))"
            and "x \<in> set (map createId [0..<length vals])" by blast
        then obtain k where "k < length vals" and "x = createId k" by auto
        with r x show False by blast
      qed
    qed
    finally show ?thesis by blast
  qed
  let ?Q = "\<lambda>t. int4 (tx_amount t)
                \<and> tx_accountId t \<in> set (map acc_id (accounts db))
                \<and> (case tx_categoryId t of
                      None \<Rightarrow> True
                    | Some c \<Rightarrow> c \<in> set (map cat_id (categories db)))"
  let ?R = "\<lambda>v. - 2147483648 \<le> n_amount v \<and> n_amount v \<le> 2147483647
                \<and> n_accountId v \<in> set (map acc_id (accounts db))
                \<and> (\<forall>c. n_categoryId v = Some c \<longrightarrow> c \<in> set (map cat_id (categories db)))"
  have row: "?Q (with_id i v) \<longleftrightarrow> ?R v" for i v
    by (simp add: with_id_def int4_def split: option.split)
  have "list_all ?Q ?data \<longleftrightarrow> (\<forall>k < length vals. ?Q (with_id (createId k) (vals ! k)))"
    by (auto simp: list_all_iff)
  also have "\<dots> \<longleftrightarrow> (\<forall>k < length vals. ?R (vals ! k))"
    by (simp only: row)
  also have "\<dots> \<longleftrightarrow> (\<forall>v \<in> set vals. ?R v)"
    by (simp only: all_set_conv_all_nth)
  finally have rows: "list_all ?Q ?data \<longleftrightarrow> (\<forall>v \<in> set vals. ?R v)" .
  show ?thesis
    unfolding accepted_def by (simp only: ids rows conj_assoc)
qed

text \<open>
  Claim C10, as the code has it. In a database whose account ids and transaction ids are
  unique (both are primary keys), for a request with a session:
  if some row of the batch names an account that is not an account of the caller, the
  answer is 400 \<open>Invalid account(s)\<close> and the database is left as it was. Otherwise the
  rows go to one insert. The table takes them when the batch is not empty, the ids that
  \<open>createId()\<close> returns differ from each other and from the ids in the table, every amount
  is a 32-bit integer and every category id given is the id of a category: then the
  answer is the list of the new rows, the \<open>k\<close>-th with the id of the \<open>k\<close>-th call of
  \<open>createId()\<close> and the values of the \<open>k\<close>-th row of the batch, the transactions of the
  database are extended by these rows, and accounts and categories are left as they
  were. When the table does not take them the answer is 500 and the database is left as
  it was.
\<close>

theorem C10_bulk_create:
  assumes "distinct (map acc_id (accounts db))" and "distinct (map tx_id (transactions db))"
      and "userId \<noteq> []"
  shows "((\<exists>v \<in> set vals. \<not> (\<exists>a \<in> set (accounts db).
                acc_id a = n_accountId v \<and> acc_userId a = userId))
          \<longrightarrow> transactions_bulk_create (Some userId) vals createId db
                = (Json_error ''Invalid account(s)'' 400, [Select Accounts], db))
       \<and> ((\<forall>v \<in> set vals. \<exists>a \<in> set (accounts db).
                acc_id a = n_accountId v \<and> acc_userId a = userId)
          \<longrightarrow> (if vals \<noteq> []
                  \<and> (\<forall>k < length vals. createId k \<notin> set (map tx_id (transactions db)))
                  \<and> inj_on createId {..< length vals}
                  \<and> (\<forall>v \<in> set vals. - 2147483648 \<le> n_amount v \<and> n_amount v \<le> 2147483647
                        \<and> (\<forall>c. n_categoryId v = Some c
                               \<longrightarrow> c \<in> set (map cat_id (categories db))))
               then \<exists>data db'.
                      transactions_bulk_create (Some userId) vals createId db
                        = (Json_data data, [Select Accounts, Insert Transactions], db')
                      \<and> accounts db' = accounts db \<and> categories db' = categories db
                      \<and> transactions db' = transactions db @ data
                      \<and> length data = length vals
                      \<and> (\<forall>k < length vals.
                            tx_id (data ! k) = createId k
                            \<and> tx_amount (data ! k) = n_amount (vals ! k)
                            \<and> tx_date (data ! k) = n_date (vals ! k)
                            \<and> tx_payee (data ! k) = n_payee (vals ! k)
                            \<and> tx_notes (data ! k) = n_notes (vals ! k)
                            \<and> tx_accountId (data ! k) = n_accountId (vals ! k)
                            \<and> tx_categoryId (data ! k) = n_categoryId (vals ! k))
                      \<and> distinct (map tx_id (transactions db'))
               else fst (transactions_bulk_create (Some userId) vals createId db)
                      = Internal_Server_Error
                    \<and> snd (snd (transactions_bulk_create (Some userId) vals createId db)) = db))"
proof -
  let ?ids = "new_Set (map n_accountId vals)"
  let ?data = "map (\<lambda>k. with_id (createId k) (vals ! k)) [0..<length vals]"
  let ?takes = "vals \<noteq> []
                  \<and> (\<forall>k < length vals. createId k \<notin> set (map tx_id (transactions db)))
                  \<and> inj_on createId {..< length vals}
                  \<and> (\<forall>v \<in> set vals. - 2147483648 \<le> n_amount v \<and> n_amount v \<le> 2147483647
                        \<and> (\<forall>c. n_categoryId v = Some c
                               \<longrightarrow> c \<in> set (map cat_id (categories db))))"
  have len: "length (map acc_id (filter (\<lambda>a. acc_userId a = userId \<and> acc_id a \<in> set ?ids)
                 (accounts db))) = length ?ids
         \<longleftrightarrow> (\<forall>v \<in> set vals. \<exists>a \<in> set (accounts db).
                acc_id a = n_accountId v \<and> acc_userId a = userId)"
    using owned_accounts_length [OF assms(1) distinct_new_Set, of userId "map n_accountId vals"]
    by (simp add: set_new_Set)
  show ?thesis
  proof (intro conjI impI)
    assume "\<exists>v \<in> set vals. \<not> (\<exists>a \<in> set (accounts db).
                acc_id a = n_accountId v \<and> acc_userId a = userId)"
    with len have "length (map acc_id (filter (\<lambda>a. acc_userId a = userId \<and> acc_id a \<in> set ?ids)
                 (accounts db))) \<noteq> length ?ids" by blast
    then show "transactions_bulk_create (Some userId) vals createId db
                = (Json_error ''Invalid account(s)'' 400, [Select Accounts], db)"
      using assms(3) by (simp add: transactions_bulk_create_def truthy_def Let_def)
  next
    assume own: "\<forall>v \<in> set vals. \<exists>a \<in> set (accounts db).
                acc_id a = n_accountId v \<and> acc_userId a = userId"
    with len have "length (map acc_id (filter (\<lambda>a. acc_userId a = userId \<and> acc_id a \<in> set ?ids)
                 (accounts db))) = length ?ids" by blast
    then have run: "transactions_bulk_create (Some userId) vals createId db
        = (if ?data = [] then (Internal_Server_Error, [Select Accounts], db)
           else (case insert_transactions db ?data of
                   None \<Rightarrow> (Internal_Server_Error, [Select Accounts, Insert Transactions], db)
                 | Some db' \<Rightarrow> (Json_data ?data, [Select Accounts, Insert Transactions], db')))"
      using assms(3) by (simp add: transactions_bulk_create_def truthy_def Let_def)
    have empty: "?data = [] \<longleftrightarrow> vals = []" by simp
    from own have fk: "\<forall>v \<in> set vals. n_accountId v \<in> set (map acc_id (accounts db))"
      by (simp add: image_iff) metis
    have acc: "accepted db ?data \<and> vals \<noteq> [] \<longleftrightarrow> ?takes"
      using fk by (simp only: accepted_new_rows [OF assms(2)]) blast
    show "if ?takes
          then \<exists>data db'.
                 transactions_bulk_create (Some userId) vals createId db
                   = (Json_data data, [Select Accounts, Insert Transactions], db')
                 \<and> accounts db' = accounts db \<and> categories db' = categories db
                 \<and> transactions db' = transactions db @ data
                 \<and> length data = length vals
                 \<and> (\<forall>k < length vals.
                       tx_id (data ! k) = createId k
                       \<and> tx_amount (data ! k) = n_amount (vals ! k)
                       \<and> tx_date (data ! k) = n_date (vals ! k)
                       \<and> tx_payee (data ! k) = n_payee (vals ! k)
                       \<and> tx_notes (data ! k) = n_notes (vals ! k)
                       \<and> tx_accountId (data ! k) = n_accountId (vals ! k)
                       \<and> tx_categoryId (data ! k) = n_categoryId (vals ! k))
                 \<and> distinct (map tx_id (transactions db'))
          else fst (transactions_bulk_create (Some userId) vals createId db)
                 = Internal_Server_Error
               \<and> snd (snd (transactions_bulk_create (Some userId) vals createId db)) = db"
    proof (cases ?takes)
      case True
      with acc have a: "accepted db ?data" and ne: "vals \<noteq> []" by blast+
      from a have d: "distinct (map tx_id (transactions db @ ?data))"
        by (simp add: accepted_def)
      from a ne have r: "transactions_bulk_create (Some userId) vals createId db
          = (Json_data ?data, [Select Accounts, Insert Transactions],
             db\<lparr>transactions := transactions db @ ?data\<rparr>)"
        by (simp add: run insert_transactions_def)
      have "transactions_bulk_create (Some userId) vals createId db
                   = (Json_data ?data, [Select Accounts, Insert Transactions],
                      db\<lparr>transactions := transactions db @ ?data\<rparr>)
                 \<and> accounts (db\<lparr>transactions := transactions db @ ?data\<rparr>) = accounts db
                 \<and> categories (db\<lparr>transactions := transactions db @ ?data\<rparr>) = categories db
                 \<and> transactions (db\<lparr>transactions := transactions db @ ?data\<rparr>)
                     = transactions db @ ?data
                 \<and> length ?data = length vals
                 \<and> (\<forall>k < length vals.
                       tx_id (?data ! k) = createId k
                       \<and> tx_amount (?data ! k) = n_amount (vals ! k)
                       \<and> tx_date (?data ! k) = n_date (vals ! k)
                       \<and> tx_payee (?data ! k) = n_payee (vals ! k)
                       \<and> tx_notes (?data ! k) = n_notes (vals ! k)
                       \<and> tx_accountId (?data ! k) = n_accountId (vals ! k)
                       \<and> tx_categoryId (?data ! k) = n_categoryId (vals ! k))
                 \<and> distinct (map tx_id (transactions (db\<lparr>transactions := transactions db @ ?data\<rparr>)))"
        using r d by (simp add: with_id_def)
      then have "\<exists>data db'.
                 transactions_bulk_create (Some userId) vals createId db
                   = (Json_data data, [Select Accounts, Insert Transactions], db')
                 \<and> accounts db' = accounts db \<and> categories db' = categories db
                 \<and> transactions db' = transactions db @ data
                 \<and> length data = length vals
                 \<and> (\<forall>k < length vals.
                       tx_id (data ! k) = createId k
                       \<and> tx_amount (data ! k) = n_amount (vals ! k)
                       \<and> tx_date (data ! k) = n_date (vals ! k)
                       \<and> tx_payee (data ! k) = n_payee (vals ! k)
                       \<and> tx_notes (data ! k) = n_notes (vals ! k)
                       \<and> tx_accountId (data ! k) = n_accountId (vals ! k)
                       \<and> tx_categoryId (data ! k) = n_categoryId (vals ! k))
                 \<and> distinct (map tx_id (transactions db'))"
        by (intro exI [of _ ?data] exI [of _ "db\<lparr>transactions := transactions db @ ?data\<rparr>"])
      then show ?thesis unfolding if_P [OF True] .
    next
      case False
      with acc have "vals = [] \<or> \<not> accepted db ?data" by blast
      then have "fst (transactions_bulk_create (Some userId) vals createId db)
                 = Internal_Server_Error
               \<and> snd (snd (transactions_bulk_create (Some userId) vals createId db)) = db"
        by (auto simp: run insert_transactions_def)
      then show ?thesis unfolding if_not_P [OF False] .
    qed
  qed
qed


lemma inj_sample_createId: "inj_on sample_createId A"
  by (simp add: inj_on_def sample_createId_def)

theorem C10_bulk_create_witness:
  "distinct (map acc_id (accounts shared_db)) \<and> distinct (map tx_id (transactions shared_db))
   \<and> ''user_a'' \<noteq> []
   \<and> map n_accountId mixed_batch = [''acc1'', ''acc2'']
   \<and> transactions_bulk_create (Some ''user_a'') mixed_batch sample_createId shared_db
       = (Json_error ''Invalid account(s)'' 400, [Select Accounts], shared_db)
   \<and> map n_accountId own_batch = [''acc1'', ''acc1'']
   \<and> (\<exists>data db'.
         transactions_bulk_create (Some ''user_a'') own_batch sample_createId shared_db
           = (Json_data data, [Select Accounts, Insert Transactions], db')
         \<and> transactions db' = transactions shared_db @ data
         \<and> length data = 2
         \<and> tx_id (data ! 0) = ''tx'' \<and> tx_amount (data ! 0) = 25500
         \<and> tx_id (data ! 1) = ''txi'' \<and> tx_amount (data ! 1) = - 100000)
   \<and> map n_accountId dangling_batch = [''acc1'', ''acc1'']
   \<and> fst (transactions_bulk_create (Some ''user_a'') dangling_batch sample_createId shared_db)
       = Internal_Server_Error
   \<and> snd (snd (transactions_bulk_create (Some ''user_a'') dangling_batch sample_createId
                  shared_db)) = shared_db"
proof -
  have pk: "distinct (map acc_id (accounts shared_db))"
    by (simp add: shared_db_def)
  have pk': "distinct (map tx_id (transactions shared_db))"
    by (simp add: shared_db_def)
  have u: "''user_a'' \<noteq> []" by simp
  have ids: "map n_accountId mixed_batch = [''acc1'', ''acc2'']"
    "map n_accountId own_batch = [''acc1'', ''acc1'']"
    "map n_accountId dangling_batch = [''acc1'', ''acc1'']"
    by (simp_all add: mixed_batch_def own_batch_def dangling_batch_def)
  have mixed: "\<exists>v \<in> set mixed_batch. \<not> (\<exists>a \<in> set (accounts shared_db).
          acc_id a = n_accountId v \<and> acc_userId a = ''user_a'')"
    by (simp add: mixed_batch_def shared_db_def)
  have own: "\<forall>v \<in> set own_batch. \<exists>a \<in> set (accounts shared_db).
          acc_id a = n_accountId v \<and> acc_userId a = ''user_a''"
    by (simp add: own_batch_def shared_db_def)
  have takes: "own_batch \<noteq> []
      \<and> (\<forall>k < length own_batch. sample_createId k \<notin> set (map tx_id (transactions shared_db)))
      \<and> inj_on sample_createId {..< length own_batch}
      \<and> (\<forall>v \<in> set own_batch. - 2147483648 \<le> n_amount v \<and> n_amount v \<le> 2147483647
            \<and> (\<forall>c. n_categoryId v = Some c \<longrightarrow> c \<in> set (map cat_id (categories shared_db))))"
    by (simp add: inj_sample_createId) (simp add: own_batch_def shared_db_def sample_createId_def)
  have dangling: "\<forall>v \<in> set dangling_batch. \<exists>a \<in> set (accounts shared_db).
          acc_id a = n_accountId v \<and> acc_userId a = ''user_a''"
    by (simp add: dangling_batch_def shared_db_def)
  have refused: "\<not> (dangling_batch \<noteq> []
      \<and> (\<forall>k < length dangling_batch.
             sample_createId k \<notin> set (map tx_id (transactions shared_db)))
      \<and> inj_on sample_createId {..< length dangling_batch}
      \<and> (\<forall>v \<in> set dangling_batch. - 2147483648 \<le> n_amount v \<and> n_amount v \<le> 2147483647
            \<and> (\<forall>c. n_categoryId v = Some c \<longrightarrow> c \<in> set (map cat_id (categories shared_db)))))"
    by (simp add: dangling_batch_def shared_db_def)
  from C10_bulk_create [OF pk pk' u, of mixed_batch sample_createId] mixed
  have a: "transactions_bulk_create (Some ''user_a'') mixed_batch sample_createId shared_db
       = (Json_error ''Invalid account(s)'' 400, [Select Accounts], shared_db)"
    by blast
  from C10_bulk_create [OF pk pk' u, of own_batch sample_createId] own
  have "if own_batch \<noteq> []
      \<and> (\<forall>k < length own_batch. sample_createId k \<notin> set (map tx_id (transactions shared_db)))
      \<and> inj_on sample_createId {..< length own_batch}
      \<and> (\<forall>v \<in> set own_batch. - 2147483648 \<le> n_amount v \<and> n_amount v \<le> 2147483647
            \<and> (\<forall>c. n_categoryId v = Some c \<longrightarrow> c \<in> set (map cat_id (categories shared_db))))
      then \<exists>data db'.
        transactions_bulk_create (Some ''user_a'') own_batch sample_createId shared_db
          = (Json_data data, [Select Accounts, Insert Transactions], db')
        \<and> accounts db' = accounts shared_db \<and> categories db' = categories shared_db
        \<and> transactions db' = transactions shared_db @ data
        \<and> length data = length own_batch
        \<and> (\<forall>k < length own_batch.
              tx_id (data ! k) = sample_createId k
              \<and> tx_amount (data ! k) = n_amount (own_batch ! k)
              \<and> tx_date (data ! k) = n_date (own_batch ! k)
              \<and> tx_payee (data ! k) = n_payee (own_batch ! k)
              \<and> tx_notes (data ! k) = n_notes (own_batch ! k)
              \<and> tx_accountId (data ! k) = n_accountId (own_batch ! k)
              \<and> tx_categoryId (data ! k) = n_categoryId (own_batch ! k))
        \<and> distinct (map tx_id (transactions db'))
      else fst (transactions_bulk_create (Some ''user_a'') own_batch sample_createId shared_db)
             = Internal_Server_Error
           \<and> snd (snd (transactions_bulk_create (Some ''user_a'') own_batch sample_createId
                          shared_db)) = shared_db"
    by blast
  then obtain data db' where r:
      "transactions_bulk_create (Some ''user_a'') own_batch sample_createId shared_db
          = (Json_data data, [Select Accounts, Insert Transactions], db')"
      "transactions db' = transactions shared_db @ data"
      "length data = length own_batch"
      and rows: "\<forall>k < length own_batch.
              tx_id (data ! k) = sample_createId k
              \<and> tx_amount (data ! k) = n_amount (own_batch ! k)
              \<and> tx_date (data ! k) = n_date (own_batch ! k)
              \<and> tx_payee (data ! k) = n_payee (own_batch ! k)
              \<and> tx_notes (data ! k) = n_notes (own_batch ! k)
              \<and> tx_accountId (data ! k) = n_accountId (own_batch ! k)
              \<and> tx_categoryId (data ! k) = n_categoryId (own_batch ! k)"
    unfolding if_P [OF takes] by blast
  have l: "length own_batch = 2" by (simp add: own_batch_def)
  from rows [rule_format, of 0] rows [rule_format, of 1]
  have "tx_id (data ! 0) = ''tx'' \<and> tx_amount (data ! 0) = 25500
      \<and> tx_id (data ! 1) = ''txi'' \<and> tx_amount (data ! 1) = - 100000"
    by (simp add: own_batch_def sample_createId_def)
  with r l have b: "\<exists>data db'.
         transactions_bulk_create (Some ''user_a'') own_batch sample_createId shared_db
           = (Json_data data, [Select Accounts, Insert Transactions], db')
         \<and> transactions db' = transactions shared_db @ data
         \<and> length data = 2
         \<and> tx_id (data ! 0) = ''tx'' \<and> tx_amount (data ! 0) = 25500
         \<and> tx_id (data ! 1) = ''txi'' \<and> tx_amount (data ! 1) = - 100000"
    by (intro exI [of _ data] exI [of _ db']) simp
  from C10_bulk_create [OF pk pk' u, of dangling_batch sample_createId] dangling
  have "if dangling_batch \<noteq> []
      \<and> (\<forall>k < length dangling_batch.
             sample_createId k \<notin> set (map tx_id (transactions shared_db)))
      \<and> inj_on sample_createId {..< length dangling_batch}
      \<and> (\<forall>v \<in> set dangling_batch. - 2147483648 \<le> n_amount v \<and> n_amount v \<le> 2147483647
            \<and> (\<forall>c. n_categoryId v = Some c \<longrightarrow> c \<in> set (map cat_id (categories shared_db))))
      then \<exists>data db'.
        transactions_bulk_create (Some ''user_a'') dangling_batch sample_createId shared_db
          = (Json_data data, [Select Accounts, Insert Transactions], db')
        \<and> accounts db' = accounts shared_db \<and> categories db' = categories shared_db
        \<and> transactions db' = transactions shared_db @ data
        \<and> length data = length dangling_batch
        \<and> (\<forall>k < length dangling_batch.
              tx_id (data ! k) = sample_createId k
              \<and> tx_amount (data ! k) = n_amount (dangling_batch ! k)
              \<and> tx_date (data ! k) = n_date (dangling_batch ! k)
              \<and> tx_payee (data ! k) = n_payee (dangling_batch ! k)
              \<and> tx_notes (data ! k) = n_notes (dangling_batch ! k)
              \<and> tx_accountId (data ! k) = n_accountId (dangling_batch ! k)
              \<and> tx_categoryId (data ! k) = n_categoryId (dangling_batch ! k))
        \<and> distinct (map tx_id (transactions db'))
      else fst (transactions_bulk_create (Some ''user_a'') dangling_batch sample_createId
                  shared_db)
             = Internal_Server_Error
           \<and> snd (snd (transactions_bulk_create (Some ''user_a'') dangling_batch
                          sample_createId shared_db)) = shared_db"
    by blast
  then have c: "fst (transactions_bulk_create (Some ''user_a'') dangling_batch sample_createId
                  shared_db)
             = Internal_Server_Error
           \<and> snd (snd (transactions_bulk_create (Some ''user_a'') dangling_batch
                          sample_createId shared_db)) = shared_db"
    unfolding if_not_P [OF refused] .
  from pk pk' u ids a b c show ?thesis
    by (intro conjI) (simp_all only: simp_thms)
qed

text \<open>
  As the claim states it, a batch that names only accounts of the caller is inserted.
  The second row of \<open>dangling_batch\<close> names the account of \<open>user_a\<close> and a category id that
  no category has: the insert breaks the reference to the categories, the answer is 500
  and no row of the batch is in the database.
\<close>

theorem C10_bulk_create_dangling_category_counterexample:
  "map n_accountId dangling_batch = [''acc1'', ''acc1'']
   \<and> map acc_id (accounts shared_db) = [''acc1'', ''acc2'']
   \<and> map acc_userId (accounts shared_db) = [''user_a'', ''user_b'']
   \<and> map n_categoryId dangling_batch = [None, Some ''c0'']
   \<and> map cat_id (categories shared_db) = [''c9'']
   \<and> transactions_bulk_create (Some ''user_a'') dangling_batch sample_createId shared_db
       = (Internal_Server_Error, [Select Accounts, Insert Transactions], shared_db)"
  by (simp add: transactions_bulk_create_def dangling_batch_def shared_db_def truthy_def
      new_Set_def with_id_def insert_transactions_def accepted_def int4_def sample_createId_def
      Let_def)

subsection \<open>The rows of other users\<close>

lemma same_id_same_row:
  assumes "distinct (map f xs)" and "x \<in> set xs" and "y \<in> set xs" and "f x = f y"
  shows "x = y"
  using assms by (meson distinct_map inj_onD)

text \<open>
  With unique ids, the get-by-id of a row of another user answers 404.
\<close>

lemma accounts_get_foreign:
  assumes "b \<in> set (accounts db)" and "acc_userId b \<noteq> u"
      and "distinct (map acc_id (accounts db))" and "u \<noteq> []" and "acc_id b \<noteq> []"
  shows "accounts_get (Some u) (Some (acc_id b)) db
           = (Json_error ''Not found'' 404, [Select Accounts])"
proof -
  have "filter (\<lambda>a. acc_userId a = u \<and> acc_id a = acc_id b) (accounts db) = []"
    using assms(1,2) same_id_same_row [OF assms(3) _ assms(1)]
    by (auto simp: filter_empty_conv)
  then show ?thesis
    using assms(4,5) by (simp add: accounts_get_def truthy_def)
qed

lemma categories_get_foreign:
  assumes "c \<in> set (categories db)" and "cat_userId c \<noteq> u"
      and "distinct (map cat_id (categories db))" and "u \<noteq> []" and "cat_id c \<noteq> []"
  shows "categories_get (Some u) (Some (cat_id c)) db
           = (Json_error ''Not found.'' 404, [Select Categories])"
proof -
  have "filter (\<lambda>x. cat_userId x = u \<and> cat_id x = cat_id c) (categories db) = []"
    using assms(1,2) same_id_same_row [OF assms(3) _ assms(1)]
    by (auto simp: filter_empty_conv)
  then show ?thesis
    using assms(4,5) by (simp add: categories_get_def truthy_def)
qed

lemma transactions_get_foreign:
  assumes "t \<in> set (transactions db)" and "b \<in> set (accounts db)"
      and "acc_id b = tx_accountId t" and "acc_userId b \<noteq> u"
      and "distinct (map acc_id (accounts db))" and "distinct (map tx_id (transactions db))"
      and "u \<noteq> []" and "tx_id t \<noteq> []"
  shows "transactions_get (Some u) (Some (tx_id t)) db
           = (Json_error ''Not found'' 404, [Select Transactions])"
proof -
  have "\<not> (acc_userId a = u \<and> tx_id t' = tx_id t)" if "(t', a) \<in> set (innerJoin_accounts db)"
    for t' a
  proof
    assume h: "acc_userId a = u \<and> tx_id t' = tx_id t"
    from that have m: "t' \<in> set (transactions db)" "a \<in> set (accounts db)"
      "tx_accountId t' = acc_id a"
      by (auto simp: innerJoin_accounts_def)
    from same_id_same_row [OF assms(6) m(1) assms(1)] h have "t' = t" by simp
    with m(3) assms(3) have "acc_id a = acc_id b" by simp
    from same_id_same_row [OF assms(5) m(2) assms(2) this] have "a = b" .
    with h assms(4) show False by simp
  qed
  then have "filter (\<lambda>(t', a). acc_userId a = u \<and> tx_id t' = tx_id t) (innerJoin_accounts db) = []"
    by (auto simp: filter_empty_conv)
  then show ?thesis
    using assms(7,8) by (simp add: transactions_get_def truthy_def)
qed

lemma crossed_rows:
  "filter (\<lambda>(t, a, c). window_condition None ''user_a'' s e t a)
     (leftJoin_categories crossed_db (innerJoin_accounts crossed_db))
   = (if s \<le> (12, 0) \<and> (12, 0) \<le> e
      then [(transactions crossed_db ! 1, accounts crossed_db ! 0,
             Some (categories crossed_db ! 0))]
      else [])"
  by (simp add: crossed_db_def innerJoin_accounts_def leftJoin_categories_def
      category_rows_def window_condition_def truthy_def)

lemma crossed_list:
  "transactions_list (Some ''user_a'') None None None (30, 43200000) crossed_db
     = (Json_data [\<lparr>r_id = ''tx'', r_date = (12, 0), r_category = Some ''Surprise party'',
                    r_categoryId = Some ''c9'', r_payee = ''Bakery'', r_amount = - 5000,
                    r_notes = None, r_account = ''Checking'', r_accountId = ''acc1''\<rparr>],
        [Select Transactions])"
  by (simp add: transactions_list_def truthy_def resolve_window_def subDays_def addDays_def
      crossed_rows orderBy_desc_def less_eq_prod_def)
    (simp add: crossed_db_def)

lemma crossed_top:
  "topCategories crossed_db None ''user_a'' (12, 0) (13, 0)
     = Some [\<lparr>name = ''Surprise party'', value = 5000\<rparr>]"
  by (simp add: topCategories_def expense_rows_def truthy_def
      crossed_db_def innerJoin_accounts_def leftJoin_categories_def category_rows_def
      window_condition_def orderBy_desc_def group_key_def group_total_def coalesce_def
      int4_abs_def)

lemma crossed_summary:
  "summary_get (Some ''user_a'') (Some 12) (Some 13) None (30, 43200000) crossed_db
     = (Json_data
          \<lparr>remainingAmount = Some (- 5000), remainingChange = None,
           incomeAmount = Some 0, incomeChange = None,
           expensesAmount = Some (- 5000), expensesChange = None,
           summary_categories = [\<lparr>name = ''Surprise party'', value = 5000\<rparr>],
           summary_days = [\<lparr>d_date = 12, d_income = 0, d_expenses = 5000\<rparr>,
                           \<lparr>d_date = 13, d_income = 0, d_expenses = 0\<rparr>]\<rparr>,
        [Select Transactions, Select Transactions, Select Transactions, Select Transactions])"
proof -
  have window: "resolve_window (30, 43200000) (Some 12) (Some 13) = ((12, 0), (13, 0))"
    by (simp add: resolve_window_def parse_day_def)
  have previous: "lastPeriodStart (12, 0) (13, 0) = (10, 0)"
    "lastPeriodEnd (12, 0) (13, 0) = (11, 0)"
    by (simp_all add: lastPeriodStart_def lastPeriodEnd_def periodLength_def
        differenceInDays_def subDays_def addDays_def less_prod_def less_eq_prod_def)
  have joined: "innerJoin_accounts crossed_db
      = [(transactions crossed_db ! 0, accounts crossed_db ! 1),
         (transactions crossed_db ! 1, accounts crossed_db ! 0)]"
    by (simp add: innerJoin_accounts_def crossed_db_def)
  have rows: "filter (\<lambda>(t, a). window_condition None ''user_a'' s e t a)
                (innerJoin_accounts crossed_db)
      = (if s \<le> (12, 0) \<and> (12, 0) \<le> e
         then [(transactions crossed_db ! 1, accounts crossed_db ! 0)] else [])" for s e
    by (simp add: joined) (simp add: crossed_db_def window_condition_def truthy_def)
  have current: "fetchFinancialData crossed_db None ''user_a'' (12, 0) (13, 0)
      = \<lparr>income = Some 0, expenses = Some (- 5000), remaining = Some (- 5000)\<rparr>"
    by (simp add: fetchFinancialData_def rows sql_sum_def less_eq_prod_def)
      (simp add: crossed_db_def)
  have last: "fetchFinancialData crossed_db None ''user_a'' (10, 0) (11, 0)
      = \<lparr>income = None, expenses = None, remaining = None\<rparr>"
    by (simp add: fetchFinancialData_def rows sql_sum_def less_eq_prod_def)
  have days: "days_query crossed_db None ''user_a'' (12, 0) (13, 0)
      = Some [\<lparr>a_date = (12, 0), a_income = 0, a_expenses = 5000\<rparr>]"
    by (simp add: days_query_def rows less_eq_prod_def)
      (simp add: crossed_db_def int4_abs_def)
  have fill: "fillMissingDays [\<lparr>a_date = (12, 0), a_income = 0, a_expenses = 5000\<rparr>]
                (12, 0) (13, 0)
      = [\<lparr>d_date = 12, d_income = 0, d_expenses = 5000\<rparr>,
         \<lparr>d_date = 13, d_income = 0, d_expenses = 0\<rparr>]"
    by (simp add: fillMissingDays_def differenceInDays_def less_prod_def less_eq_prod_def
        fill_loop.simps [of _ _ _ 0] fill_loop.simps [of _ _ _ 1] fill_loop.simps [of _ _ _ 2]
        format_date_def addDays_def)
  show ?thesis
    by (simp add: summary_get_def truthy_def window previous current last days fill crossed_top
        percentage_change_def)
qed

text \<open>
  Claim C8, on \<open>shared_db\<close>, where the only category is a row of \<open>user_b\<close>. \<open>user_a\<close>
  creates a transaction in the own account with the id of that category: the handler
  tests the account and not the category, and the row is inserted. From then on the
  listing of transactions and the summary answer \<open>user_a\<close> with the name of the category
  of \<open>user_b\<close>, while the listing of categories answers \<open>user_a\<close> with no category.
\<close>

theorem C8_foreign_category_name_leak:
  "map cat_userId (categories shared_db) = [''user_b'']
   \<and> map cat_name (categories shared_db) = [''Surprise party'']
   \<and> transactions_bulk_create (Some ''user_a'') crossing_batch sample_createId shared_db
       = (Json_data [\<lparr>tx_id = ''tx'', tx_amount = - 5000, tx_date = (12, 0),
                      tx_payee = ''Bakery'', tx_notes = None, tx_accountId = ''acc1'',
                      tx_categoryId = Some ''c9''\<rparr>],
          [Select Accounts, Insert Transactions], crossed_db)
   \<and> categories_list (Some ''user_a'') crossed_db = (Json_data [], [Select Categories])
   \<and> transactions_list (Some ''user_a'') None None None (30, 43200000) crossed_db
       = (Json_data [\<lparr>r_id = ''tx'', r_date = (12, 0), r_category = Some ''Surprise party'',
                      r_categoryId = Some ''c9'', r_payee = ''Bakery'', r_amount = - 5000,
                      r_notes = None, r_account = ''Checking'', r_accountId = ''acc1''\<rparr>],
          [Select Transactions])
   \<and> summary_get (Some ''user_a'') (Some 12) (Some 13) None (30, 43200000) crossed_db
       = (Json_data
            \<lparr>remainingAmount = Some (- 5000), remainingChange = None,
             incomeAmount = Some 0, incomeChange = None,
             expensesAmount = Some (- 5000), expensesChange = None,
             summary_categories = [\<lparr>name = ''Surprise party'', value = 5000\<rparr>],
             summary_days = [\<lparr>d_date = 12, d_income = 0, d_expenses = 5000\<rparr>,
                             \<lparr>d_date = 13, d_income = 0, d_expenses = 0\<rparr>]\<rparr>,
          [Select Transactions, Select Transactions, Select Transactions,
           Select Transactions])"
proof -
  have "transactions_bulk_create (Some ''user_a'') crossing_batch sample_createId shared_db
       = (Json_data [\<lparr>tx_id = ''tx'', tx_amount = - 5000, tx_date = (12, 0),
                      tx_payee = ''Bakery'', tx_notes = None, tx_accountId = ''acc1'',
                      tx_categoryId = Some ''c9''\<rparr>],
          [Select Accounts, Insert Transactions], crossed_db)"
    by (simp add: transactions_bulk_create_def crossing_batch_def shared_db_def truthy_def
        new_Set_def with_id_def insert_transactions_def accepted_def int4_def
        sample_createId_def crossed_db_def Let_def)
  moreover have "categories_list (Some ''user_a'') crossed_db = (Json_data [], [Select Categories])"
    by (simp add: categories_list_def truthy_def crossed_db_def)
  moreover have "map cat_userId (categories shared_db) = [''user_b'']"
    "map cat_name (categories shared_db) = [''Surprise party'']"
    by (simp_all add: shared_db_def)
  ultimately show ?thesis
    by (simp only: crossed_list crossed_summary simp_thms)
qed

end
